theory Spec2Isabelle
  imports Complex_Main "HOL-Library.Stream"
begin

section \<open>JavaScript values\<close>

text \<open>
  A JavaScript string is a sequence of UTF-16 code units; it is modelled as the list of
  those code units, so that \<open>trim\<close>, \<open>\s\<close> and \<open>parseInt\<close> see the same
  white space as the engine does. \<open>js ''abc''\<close> is the string literal \<open>"abc"\<close>.
\<close>

type_synonym jsstring = "nat list"

abbreviation js :: "string \<Rightarrow> jsstring" where
  "js s \<equiv> map of_char s"

text \<open>
  A number is an IEEE double. \<open>Finite q\<close> is the finite double nearest to the
  rational \<open>q\<close> (ties to even), for \<open>q\<close> within the range that rounds to a finite
  double; two rationals with the same nearest double stand for the same number, and no
  statement below tells them apart. Both zeros are the doubles of the rationals that
  round to zero.
\<close>

datatype number = NaN | PosInfinity | NegInfinity | Finite rat

text \<open>
  The rationals whose nearest double is a zero: up to half the least positive double,
  which is \<open>2^-1074\<close>.
\<close>

definition rounds_to_zero :: "rat \<Rightarrow> bool" where
  "rounds_to_zero q = (\<bar>q\<bar> * 2 ^ 1075 \<le> 1)"

text \<open>
  The Number value of a rational: its nearest double, which is an infinity from halfway
  between the greatest finite double, \<open>2^1024 - 2^971\<close>, and \<open>2^1024\<close> on.
\<close>

definition number_value :: "rat \<Rightarrow> number" where
  "number_value q =
     (if 2 ^ 1024 - 2 ^ 970 \<le> q then PosInfinity
      else if q \<le> - (2 ^ 1024 - 2 ^ 970) then NegInfinity
      else Finite q)"

text \<open>
  The values that \<open>JSON.parse\<close> builds (and \<open>undefined\<close>, which a read of a
  missing property gives). An object is the list of its own properties, each key once.
\<close>

datatype jsval =
    JUndefined
  | JNull
  | JBool bool
  | JNum number
  | JStr jsstring
  | JArr "jsval list"
  | JObj "(jsstring \<times> jsval) list"

text \<open>
  Only the message of an error is ever read. It is a string literal of the program, the
  message of a library error, the string conversion of a value handed to
  \<open>new Error(v)\<close>, or the engine's text for a TypeError or URIError: a property read
  on \<open>null\<close> or \<open>undefined\<close>, a value that has no conversion to a string, a
  string that has no URI encoding. All but the first are kept symbolic.
\<close>

datatype message =
    Text jsstring
  | ToStringOf jsval
  | CannotRead jsval jsstring
  | CannotConvert jsval
  | MalformedURI jsval

text \<open>
  \<open>ToBoolean\<close>: the falsy values are undefined, null, false, the zeros, NaN and "".
\<close>

fun truthy :: "jsval \<Rightarrow> bool" where
  "truthy JUndefined = False"
| "truthy JNull = False"
| "truthy (JBool b) = b"
| "truthy (JNum n) =
     (case n of NaN \<Rightarrow> False | Finite q \<Rightarrow> \<not> rounds_to_zero q | _ \<Rightarrow> True)"
| "truthy (JStr s) = (s \<noteq> [])"
| "truthy (JArr xs) = True"
| "truthy (JObj ps) = True"

text \<open>\<open>a || b\<close> on values that are already evaluated.\<close>

definition js_or :: "jsval \<Rightarrow> jsval \<Rightarrow> jsval" where
  "js_or a b = (if truthy a then a else b)"

text \<open>
  \<open>v.k\<close> for the keys this program reads (\<open>information\<close>, \<open>name\<close>,
  \<open>distance\<close>, \<open>bodyCount\<close>, \<open>economy\<close>, \<open>security\<close>, \<open>allegiance\<close>,
  \<open>faction\<close>, \<open>errorCode\<close>, \<open>error\<close>): none of them is a property of an array, a
  string, a number or a boolean, so the read gives \<open>undefined\<close> there; on \<open>null\<close>
  and \<open>undefined\<close> it throws a TypeError.
\<close>

fun get_prop :: "jsval \<Rightarrow> jsstring \<Rightarrow> message + jsval" where
  "get_prop JUndefined k = Inl (CannotRead JUndefined k)"
| "get_prop JNull k = Inl (CannotRead JNull k)"
| "get_prop (JObj ps) k = Inr (case map_of ps k of None \<Rightarrow> JUndefined | Some v \<Rightarrow> v)"
| "get_prop v k = Inr JUndefined"

text \<open>Sequencing of a computation that may throw: the first error ends it.\<close>

definition and_then :: "'e + 'a \<Rightarrow> ('a \<Rightarrow> 'e + 'b) \<Rightarrow> 'e + 'b" where
  "and_then r f = (case r of Inl e \<Rightarrow> Inl e | Inr x \<Rightarrow> f x)"

text \<open>\<open>Array.prototype.map\<close> with a callback that may throw.\<close>

fun array_map :: "('a \<Rightarrow> 'e + 'b) \<Rightarrow> 'a list \<Rightarrow> 'e + 'b list" where
  "array_map f [] = Inr []"
| "array_map f (x # xs) =
     and_then (f x) (\<lambda>y. and_then (array_map f xs) (\<lambda>ys. Inr (y # ys)))"

text \<open>
  Whether \<open>ToString(v)\<close> returns. An object is converted by the \<open>toString\<close> it
  inherits, unless it has a property of that name of its own: no value here is
  callable, so the conversion then throws a TypeError, with or without a \<open>valueOf\<close>
  of its own. An array is converted by \<open>join\<close>, which converts every element that is
  neither \<open>undefined\<close> nor \<open>null\<close>. Every other value converts.
\<close>

fun converts :: "jsval \<Rightarrow> bool" where
  "converts (JObj ps) = (map_of ps (js ''toString'') = None)"
| "converts (JArr xs) = (\<forall>x \<in> set xs. x = JUndefined \<or> x = JNull \<or> converts x)"
| "converts v = True"

text \<open>
  A string without a lone surrogate: every code unit from D800 to DBFF is followed by
  one from DC00 to DFFF, and no other code unit from DC00 to DFFF occurs.
\<close>

fun well_formed :: "jsstring \<Rightarrow> bool" where
  "well_formed [] = True"
| "well_formed [c] = (\<not> (55296 \<le> c \<and> c \<le> 57343))"
| "well_formed (c # d # cs) =
     (if 55296 \<le> c \<and> c \<le> 56319 then 56320 \<le> d \<and> d \<le> 57343 \<and> well_formed cs
      else if 56320 \<le> c \<and> c \<le> 57343 then False
      else well_formed (d # cs))"

text \<open>
  Whether the string of a value that converts is without a lone surrogate. The string of
  an array is that of its elements with commas between them; the strings of the other
  values that are not strings have no surrogate at all.
\<close>

fun encodable :: "jsval \<Rightarrow> bool" where
  "encodable (JStr s) = well_formed s"
| "encodable (JArr xs) = (\<forall>x \<in> set xs. encodable x)"
| "encodable v = True"

text \<open>
  \<open>`${v}`\<close> and \<open>encodeURIComponent(v)\<close>: the first converts \<open>v\<close> to a string, the
  second then encodes the string and throws a URIError on a lone surrogate. What they
  return is kept as the value that was converted.
\<close>

definition template_value :: "jsval \<Rightarrow> message + jsval" where
  "template_value v = (if converts v then Inr v else Inl (CannotConvert v))"

definition encodeURIComponent :: "jsval \<Rightarrow> message + jsval" where
  "encodeURIComponent v =
     and_then (template_value v) (\<lambda>s. if encodable s then Inr s else Inl (MalformedURI s))"

section \<open>The canonical record and the normalizer for the JSON source\<close>

text \<open>
  The object literal both sources build. \<open>bodyCount\<close> exists on the JSON path only.
\<close>

record system =
  name :: jsval
  economy :: jsval
  security :: jsval
  allegiance :: jsval
  factions :: jsval
  stations :: jsval
  distance :: jsval
  direction :: jsval

record edsm_system = system +
  bodyCount :: jsval

text \<open>The callback of \<open>formatEdsmSystems\<close> (server.js, lines 364 to 379).\<close>

definition formatEdsmSystem :: "jsval \<Rightarrow> message + edsm_system" where
  "formatEdsmSystem sys =
     and_then (get_prop sys (js ''information'')) (\<lambda>information.
     let info = js_or information (JObj []) in
     and_then (get_prop sys (js ''name'')) (\<lambda>sys_name.
     and_then (get_prop info (js ''economy'')) (\<lambda>info_economy.
     and_then (get_prop info (js ''security'')) (\<lambda>info_security.
     and_then (get_prop info (js ''allegiance'')) (\<lambda>info_allegiance.
     and_then (get_prop info (js ''faction'')) (\<lambda>info_faction.
     and_then (get_prop sys (js ''distance'')) (\<lambda>sys_distance.
     and_then (get_prop sys (js ''bodyCount'')) (\<lambda>sys_bodyCount.
     Inr \<lparr> name = sys_name,
           economy = js_or info_economy (JStr []),
           security = js_or info_security (JStr []),
           allegiance = js_or info_allegiance (JStr (js ''Independent'')),
           factions = (if truthy info_faction then JNum (Finite 1) else JNum (Finite 0)),
           stations = JNum (Finite 0),
           distance = js_or sys_distance JNull,
           direction = JNull,
           bodyCount = js_or sys_bodyCount (JNum (Finite 0)) \<rparr>))))))))"

definition formatEdsmSystems :: "jsval list \<Rightarrow> message + edsm_system list" where
  "formatEdsmSystems edsmSystems = array_map formatEdsmSystem edsmSystems"

section \<open>Strings\<close>

text \<open>
  The code units that \<open>trim\<close>, \<open>parseInt\<close>, \<open>parseFloat\<close> and the regular
  expression class \<open>\s\<close> treat as white space: TAB, LF, VT, FF, CR, SPACE, U+00A0,
  U+1680, U+2000 to U+200A, U+2028, U+2029, U+202F, U+205F, U+3000 and U+FEFF.
\<close>

definition is_whitespace :: "nat \<Rightarrow> bool" where
  "is_whitespace c =
     (c \<in> set [9, 10, 11, 12, 13, 32, 160, 5760, 8232, 8233, 8239, 8287, 12288, 65279]
      \<or> (8192 \<le> c \<and> c \<le> 8202))"

text \<open>The class \<open>\d\<close>: the code units of 0 to 9.\<close>

definition is_digit :: "nat \<Rightarrow> bool" where
  "is_digit c = (48 \<le> c \<and> c \<le> 57)"

definition trim :: "jsstring \<Rightarrow> jsstring" where
  "trim s = rev (dropWhile is_whitespace (rev (dropWhile is_whitespace s)))"

text \<open>The value of a digit or letter as a digit of some radix.\<close>

definition digit_of :: "nat \<Rightarrow> nat option" where
  "digit_of c =
     (if 48 \<le> c \<and> c \<le> 57 then Some (c - 48)
      else if 97 \<le> c \<and> c \<le> 122 then Some (c - 87)
      else if 65 \<le> c \<and> c \<le> 90 then Some (c - 55)
      else None)"

definition is_radix_digit :: "nat \<Rightarrow> nat \<Rightarrow> bool" where
  "is_radix_digit R c = (case digit_of c of Some d \<Rightarrow> d < R | None \<Rightarrow> False)"

definition radix_value :: "nat \<Rightarrow> jsstring \<Rightarrow> nat" where
  "radix_value R Z = foldl (\<lambda>acc c. acc * R + (case digit_of c of Some d \<Rightarrow> d | None \<Rightarrow> 0)) 0 Z"

text \<open>
  \<open>parseInt(string)\<close> with no radix: leading white space is skipped, a sign is read,
  a prefix \<open>0x\<close> or \<open>0X\<close> switches to radix 16, and the longest run of digits is
  the integer read; no digit at all gives NaN. The result is the Number value of that
  integer.
\<close>

definition parseInt :: "jsstring \<Rightarrow> number" where
  "parseInt inputString =
     (let S = dropWhile is_whitespace inputString;
          sign = (if S \<noteq> [] \<and> hd S = 45 then - 1 else 1 :: int);
          S1 = (if S \<noteq> [] \<and> (hd S = 43 \<or> hd S = 45) then tl S else S);
          stripPrefix = (take 2 S1 = js ''0x'' \<or> take 2 S1 = js ''0X'');
          R = (if stripPrefix then 16 else 10);
          S2 = (if stripPrefix then drop 2 S1 else S1);
          Z = takeWhile (is_radix_digit R) S2
      in if Z = [] then NaN else number_value (of_int (sign * int (radix_value R Z))))"

text \<open>The exponent part \<open>e\<close>, sign, digits; it is read only when a digit follows.\<close>

definition exponent_part :: "jsstring \<Rightarrow> int" where
  "exponent_part S =
     (if S \<noteq> [] \<and> (hd S = 101 \<or> hd S = 69) then
        (let E = tl S;
             negative = (E \<noteq> [] \<and> hd E = 45);
             E1 = (if E \<noteq> [] \<and> (hd E = 43 \<or> hd E = 45) then tl E else E);
             digits = takeWhile is_digit E1
         in if digits = [] then 0
            else if negative then - int (radix_value 10 digits) else int (radix_value 10 digits))
      else 0)"

text \<open>
  \<open>parseFloat(string)\<close>: the longest prefix that is a decimal literal (sign, digits,
  fraction, exponent, or \<open>Infinity\<close>); none gives NaN. The result is the Number value
  of the decimal read.
\<close>

definition parseFloat :: "jsstring \<Rightarrow> number" where
  "parseFloat inputString =
     (let S = dropWhile is_whitespace inputString;
          negative = (S \<noteq> [] \<and> hd S = 45);
          S1 = (if S \<noteq> [] \<and> (hd S = 43 \<or> hd S = 45) then tl S else S)
      in if take 8 S1 = js ''Infinity'' then (if negative then NegInfinity else PosInfinity)
         else
           (let intDigits = takeWhile is_digit S1;
                S2 = dropWhile is_digit S1;
                hasPoint = (S2 \<noteq> [] \<and> hd S2 = 46);
                fracDigits = (if hasPoint then takeWhile is_digit (tl S2) else []);
                S3 = (if hasPoint then dropWhile is_digit (tl S2) else S2);
                mantissa = of_nat (radix_value 10 intDigits)
                           + of_nat (radix_value 10 fracDigits) / 10 ^ length fracDigits;
                e = exponent_part S3
            in if intDigits = [] \<and> fracDigits = [] then NaN
               else number_value ((if negative then - 1 else 1) * mantissa
                                  * (if 0 \<le> e then 10 ^ nat e else 1 / 10 ^ nat (- e)))))"

text \<open>
  \<open>s.match(re)\<close> for a regular expression without the global flag: the leftmost
  position at which the pattern matches. \<open>pat\<close> matches the pattern at the start of
  its argument and gives what the call site reads from the match, capture group 1.
\<close>

fun regex_search :: "(jsstring \<Rightarrow> 'a option) \<Rightarrow> jsstring \<Rightarrow> 'a option" where
  "regex_search pat [] = pat []"
| "regex_search pat (c # cs) =
     (case pat (c # cs) of Some g \<Rightarrow> Some g | None \<Rightarrow> regex_search pat cs)"

text \<open>
  The pattern \<open>(\d+\.\d+)\s*Ly\<close> at the start of \<open>s\<close>. Each greedy run has to be
  the longest one: after a shorter run of digits the next code unit is a digit, where the
  pattern wants the point, white space or \<open>L\<close>; after a shorter run of white space it is
  white space, where the pattern wants \<open>L\<close>. So backtracking finds nothing more.
\<close>

definition distance_at :: "jsstring \<Rightarrow> jsstring option" where
  "distance_at s =
     (let whole = takeWhile is_digit s;
          s1 = dropWhile is_digit s;
          fraction = takeWhile is_digit (tl s1);
          s2 = dropWhile is_whitespace (dropWhile is_digit (tl s1))
      in if whole \<noteq> [] \<and> s1 \<noteq> [] \<and> hd s1 = 46 \<and> fraction \<noteq> [] \<and> take 2 s2 = js ''Ly''
         then Some (whole @ [46] @ fraction) else None)"

text \<open>
  The pattern \<open>rotate\((-?\d+)deg\)\<close> at the start of \<open>s\<close>; the optional sign and the
  run of digits are the longest ones for the same reason.
\<close>

definition rotate_at :: "jsstring \<Rightarrow> jsstring option" where
  "rotate_at s =
     (let s1 = drop 7 s;
          sign = (if s1 \<noteq> [] \<and> hd s1 = 45 then [45] else []);
          s2 = drop (length sign) s1;
          digits = takeWhile is_digit s2;
          s3 = dropWhile is_digit s2
      in if take 7 s = js ''rotate('' \<and> digits \<noteq> [] \<and> take 4 s3 = js ''deg)''
         then Some (sign @ digits) else None)"

section \<open>The document tree\<close>

text \<open>
  The tree that the HTML parser of the DOM library builds from the page; the parser
  itself is not part of this program. An element has its local name (lower case in an
  HTML document), its attributes and its children.
\<close>

datatype node =
    Element jsstring "(jsstring \<times> jsstring) list" "node list"
  | TextNode jsstring
  | CommentNode jsstring

type_synonym document = "node list"

text \<open>
  \<open>textContent\<close> of an element: the data of the text nodes below it, in tree order.
  A comment adds nothing to the text of the element it is in.
\<close>

fun textContent :: "node \<Rightarrow> jsstring" where
  "textContent (Element tag attrs children) = concat (map textContent children)"
| "textContent (TextNode chars) = chars"
| "textContent (CommentNode chars) = []"

fun getAttribute :: "node \<Rightarrow> jsstring \<Rightarrow> jsstring option" where
  "getAttribute (Element tag attrs children) k = map_of attrs k"
| "getAttribute n k = None"

fun is_element :: "jsstring \<Rightarrow> node \<Rightarrow> bool" where
  "is_element tag (Element t attrs children) = (t = tag)"
| "is_element tag n = False"

text \<open>
  The tokens of a \<open>class\<close> attribute, separated by TAB, LF, FF, CR or SPACE. A
  class selector compares them as they are written, as in a page with a doctype.
\<close>

fun class_tokens :: "jsstring \<Rightarrow> jsstring \<Rightarrow> jsstring list" where
  "class_tokens token [] = (if token = [] then [] else [token])"
| "class_tokens token (c # cs) =
     (if c \<in> set [9, 10, 12, 13, 32]
      then (if token = [] then class_tokens [] cs else token # class_tokens [] cs)
      else class_tokens (token @ [c]) cs)"

definition has_class :: "jsstring \<Rightarrow> node \<Rightarrow> bool" where
  "has_class cls n =
     (case getAttribute n (js ''class'') of
        None \<Rightarrow> False
      | Some v \<Rightarrow> cls \<in> set (class_tokens [] v))"

text \<open>
  A node and everything below it in tree order, each with the flag whether it has a
  \<open>tbody\<close> element among its ancestors.
\<close>

fun walk :: "bool \<Rightarrow> node \<Rightarrow> (bool \<times> node) list" where
  "walk inTbody (Element tag attrs children) =
     (inTbody, Element tag attrs children)
       # concat (map (walk (inTbody \<or> tag = js ''tbody'')) children)"
| "walk inTbody n = [(inTbody, n)]"

text \<open>The nodes below \<open>n\<close>, without \<open>n\<close> itself: what a selector query on \<open>n\<close> looks at.\<close>

definition descendants :: "node \<Rightarrow> node list" where
  "descendants n = map snd (tl (walk False n))"

text \<open>\<open>doc.querySelector("table.tablesortercollapsed")\<close>, with the table's flag.\<close>

definition querySelector_table :: "document \<Rightarrow> (bool \<times> node) option" where
  "querySelector_table doc =
     find (\<lambda>(inTbody, n). is_element (js ''table'') n \<and> has_class (js ''tablesortercollapsed'') n)
       (concat (map (walk False) doc))"

text \<open>
  \<open>table.querySelectorAll("tbody tr")\<close>: the \<open>tr\<close> elements below the table that have
  a \<open>tbody\<close> ancestor. The selector is matched in the whole tree, so an ancestor above
  the table counts as well.
\<close>

definition querySelectorAll_tbody_tr :: "bool \<times> node \<Rightarrow> node list" where
  "querySelectorAll_tbody_tr t =
     map snd (filter (\<lambda>(inTbody, n). inTbody \<and> is_element (js ''tr'') n)
                (tl (walk (fst t) (snd t))))"

text \<open>\<open>row.querySelectorAll("td")\<close>.\<close>

definition querySelectorAll_td :: "node \<Rightarrow> node list" where
  "querySelectorAll_td row = filter (is_element (js ''td'')) (descendants row)"

text \<open>\<open>cell.querySelector("a")\<close> and \<open>cell.querySelector(".distancedirection")\<close>.\<close>

definition querySelector_a :: "node \<Rightarrow> node option" where
  "querySelector_a cell = find (is_element (js ''a'')) (descendants cell)"

definition querySelector_distancedirection :: "node \<Rightarrow> node option" where
  "querySelector_distancedirection cell =
     find (has_class (js ''distancedirection'')) (descendants cell)"

section \<open>The extractor for the scraped source\<close>

text \<open>
  The direction read from one distance cell (server.js, lines 335 to 345): the captured
  group of the rotation when the cell holds an element of class
  \<open>distancedirection\<close> whose \<open>style\<close> attribute is there, is not empty and
  matches; nothing otherwise.
\<close>

definition rotateMatch :: "node \<Rightarrow> jsstring option" where
  "rotateMatch cell =
     (case querySelector_distancedirection cell of
        None \<Rightarrow> None
      | Some directionSpan \<Rightarrow>
          (case getAttribute directionSpan (js ''style'') of
             None \<Rightarrow> None
           | Some styleAttr \<Rightarrow>
               if styleAttr = [] then None else regex_search rotate_at styleAttr))"

text \<open>
  The body of the \<open>forEach\<close> callback after its guard (lines 322 to 356), on the cells
  of one row. It runs only on seven cells or more, so \<open>cells[0]\<close> to \<open>cells[6]\<close>
  exist and no \<open>?.\<close> on a cell stops short. \<open>distanceText\<close> is a string, which
  \<open>|| ""\<close> leaves as it is.
\<close>

definition extract_row :: "node list \<Rightarrow> system" where
  "extract_row cells =
     (let systemName =
            js_or (case querySelector_a (cells ! 0) of
                     None \<Rightarrow> JUndefined
                   | Some a \<Rightarrow> JStr (trim (textContent a)))
                  (JStr []);
          economy = js_or (JStr (trim (textContent (cells ! 1)))) (JStr []);
          security = js_or (JStr (trim (textContent (cells ! 2)))) (JStr []);
          allegiance = js_or (JStr (trim (textContent (cells ! 3)))) (JStr []);
          factions = js_or (JNum (parseInt (trim (textContent (cells ! 4))))) (JNum (Finite 0));
          stations = js_or (JNum (parseInt (trim (textContent (cells ! 5))))) (JNum (Finite 0));
          distanceText = trim (textContent (cells ! 6));
          distanceMatch = regex_search distance_at distanceText;
          distance = (case distanceMatch of Some g \<Rightarrow> JNum (parseFloat g) | None \<Rightarrow> JNull);
          direction = (case rotateMatch (cells ! 6) of
                         Some g \<Rightarrow> JNum (parseInt g)
                       | None \<Rightarrow> JNull)
      in \<lparr> name = systemName,
           economy = economy,
           security = security,
           allegiance = allegiance,
           factions = factions,
           stations = stations,
           distance = distance,
           direction = direction \<rparr>)"

text \<open>One round of the \<open>forEach\<close>: the guard on the number of cells, then the push.\<close>

definition push_row :: "system list \<Rightarrow> node \<Rightarrow> system list" where
  "push_row systems row =
     (let cells = querySelectorAll_td row
      in if length cells < 7 then systems else systems @ [extract_row cells])"

definition parseInaraSystemsHtml :: "document \<Rightarrow> system list" where
  "parseInaraSystemsHtml doc =
     (case querySelector_table doc of
        None \<Rightarrow> []
      | Some table \<Rightarrow> foldl push_row [] (querySelectorAll_tbody_tr table))"

section \<open>The endpoints and their retry loops\<close>

text \<open>
  One call of \<open>axios.get\<close> either rejects, with an error of which the message is read,
  or resolves with the data of a response the library accepts. The upstream is the
  sequence of the outcomes of the calls still to come. For the scraped source the data
  is the page, given as the tree the parser builds from it.
\<close>

datatype 'a outcome = Rejects jsstring | Resolves 'a

type_synonym 'a upstream = "'a outcome stream"

text \<open>
  A URL is kept as the endpoint it addresses and the values that are written into it.
  Building it converts these values to strings, in the order of the template, and
  encodes the name of the system; either can throw.
\<close>

datatype url =
    InaraNearest jsval jsstring
  | EdsmSphere jsval jsval jsval
  | EdsmBodies jsval
  | EdsmSystem jsval

definition inara_url :: "jsval \<Rightarrow> jsstring \<Rightarrow> message + url" where
  "inara_url referenceSystem populationParam =
     and_then (encodeURIComponent referenceSystem) (\<lambda>encoded.
     Inr (InaraNearest encoded populationParam))"

definition sphere_url :: "jsval \<Rightarrow> jsval \<Rightarrow> jsval \<Rightarrow> message + url" where
  "sphere_url systemName radius minRadius =
     and_then (encodeURIComponent systemName) (\<lambda>encoded.
     and_then (template_value radius) (\<lambda>radiusText.
     and_then (template_value minRadius) (\<lambda>minRadiusText.
     Inr (EdsmSphere encoded radiusText minRadiusText))))"

definition bodies_url :: "jsval \<Rightarrow> message + url" where
  "bodies_url systemName =
     and_then (encodeURIComponent systemName) (\<lambda>encoded. Inr (EdsmBodies encoded))"

definition system_url :: "jsval \<Rightarrow> message + url" where
  "system_url systemName =
     and_then (encodeURIComponent systemName) (\<lambda>encoded. Inr (EdsmSystem encoded))"

text \<open>What a handler does besides answering: it waits and it calls the upstream.\<close>

datatype effect = Wait nat | Get url

text \<open>The answer: the status and either the JSON payload or \<open>{error, details}\<close>.\<close>

datatype 'p body = Json 'p | ErrorJson jsstring "message option"

datatype 'p reply = Reply nat "'p body"

text \<open>The delay at the head of the \<open>try\<close> block, then the call.\<close>

definition wait_and_get :: "nat \<Rightarrow> url \<Rightarrow> effect list \<Rightarrow> effect list" where
  "wait_and_get attempts u effects =
     (if attempts > 0 then effects @ [Wait (attempts * 3000)] else effects) @ [Get u]"

text \<open>\<open>lastError?.message || 'All attempts failed'\<close>.\<close>

definition last_message :: "jsstring option \<Rightarrow> jsstring" where
  "last_message lastError =
     (case lastError of
        None \<Rightarrow> js ''All attempts failed''
      | Some m \<Rightarrow> if m \<noteq> [] then m else js ''All attempts failed'')"

subsection \<open>Nearest systems, scraped source\<close>

function nearest_systems_retry ::
  "document upstream \<Rightarrow> url \<Rightarrow> nat \<Rightarrow> nat \<Rightarrow> jsstring option \<Rightarrow> effect list
     \<Rightarrow> effect list \<times> system list reply" where
  "nearest_systems_retry up inaraUrl maxAttempts attempts lastError effects =
     (if attempts < maxAttempts then
        (case shd up of
           Resolves page \<Rightarrow>
             (wait_and_get attempts inaraUrl effects,
              Reply 200 (Json (parseInaraSystemsHtml page)))
         | Rejects m \<Rightarrow>
             nearest_systems_retry (stl up) inaraUrl maxAttempts (attempts + 1) (Some m)
               (wait_and_get attempts inaraUrl effects))
      else
        (effects,
         Reply 500 (ErrorJson (js ''Failed to fetch data from Inara.cz'')
                      (Some (Text (last_message lastError))))))"
  by pat_completeness auto
termination
  by (relation "measure (\<lambda>(up, u, maxAttempts, attempts, lastError, effects).
                           maxAttempts - attempts)") auto

text \<open>
  The handler (lines 23 to 88). An error thrown outside the loop, which is one thrown
  while the URL is built, goes to the outer \<open>catch\<close>.
\<close>

definition population_param :: "jsval \<Rightarrow> jsstring" where
  "population_param anyPopulationParam =
     (let anyPopulation = (anyPopulationParam = JStr (js ''true''))
      in if anyPopulation then js ''0'' else js ''-1'')"

definition nearest_systems ::
  "jsval \<Rightarrow> jsval \<Rightarrow> document upstream \<Rightarrow> effect list \<times> system list reply" where
  "nearest_systems referenceSystem anyPopulationParam up =
     (if \<not> truthy referenceSystem then
        ([], Reply 400 (ErrorJson (js ''Reference system is required'') None))
      else
        (let populationParam = population_param anyPopulationParam
         in case inara_url referenceSystem populationParam of
              Inr inaraUrl \<Rightarrow> nearest_systems_retry up inaraUrl 3 0 None []
            | Inl error \<Rightarrow>
                ([], Reply 500 (ErrorJson (js ''Failed to fetch data from Inara.cz'')
                                  (Some error)))))"

subsection \<open>Sphere systems, JSON source\<close>

text \<open>
  The error that \<open>throw new Error(v)\<close> throws: its message is \<open>v\<close> as a string, and
  where \<open>v\<close> has no conversion to a string it is the TypeError of the conversion.
\<close>

definition new_Error :: "jsval \<Rightarrow> message" where
  "new_Error v =
     (case v of
        JStr s \<Rightarrow> Text s
      | _ \<Rightarrow> if converts v then ToStringOf v else CannotConvert v)"

text \<open>
  The \<open>try\<close> block after the call (lines 129 to 148): it ends with an answer sent or
  with an error thrown.
\<close>

definition sphere_systems_attempt :: "jsval outcome \<Rightarrow> message + edsm_system list reply" where
  "sphere_systems_attempt result =
     (case result of
        Rejects m \<Rightarrow> Inl (Text m)
      | Resolves data \<Rightarrow>
          if \<not> truthy data then
            Inl (Text (js ''Empty response received from EDSM sphere-systems''))
          else
            and_then (get_prop data (js ''errorCode'')) (\<lambda>errorCode.
            and_then (get_prop data (js ''error'')) (\<lambda>error.
            if truthy errorCode \<or> truthy error then
              Inl (new_Error (js_or error (JStr (js ''EDSM API returned an error''))))
            else
              (let systemsArray = (case data of JArr xs \<Rightarrow> xs | _ \<Rightarrow> [])
               in if length systemsArray = 0 then Inr (Reply 200 (Json []))
                  else and_then (formatEdsmSystems systemsArray) (\<lambda>formattedSystems.
                       Inr (Reply 200 (Json formattedSystems)))))))"

function sphere_systems_retry ::
  "jsval upstream \<Rightarrow> url \<Rightarrow> nat \<Rightarrow> nat \<Rightarrow> message option \<Rightarrow> effect list
     \<Rightarrow> effect list \<times> (message + edsm_system list reply)" where
  "sphere_systems_retry up edsmUrl maxAttempts attempts lastError effects =
     (if attempts < maxAttempts then
        (case sphere_systems_attempt (shd up) of
           Inr reply \<Rightarrow> (wait_and_get attempts edsmUrl effects, Inr reply)
         | Inl error \<Rightarrow>
             if attempts + 1 \<ge> maxAttempts then
               (wait_and_get attempts edsmUrl effects, Inl error)
             else
               sphere_systems_retry (stl up) edsmUrl maxAttempts (attempts + 1) (Some error)
                 (wait_and_get attempts edsmUrl effects))
      else (effects, Inl (Text (js ''All request attempts failed''))))"
  by pat_completeness auto
termination
  by (relation "measure (\<lambda>(up, u, maxAttempts, attempts, lastError, effects).
                           maxAttempts - attempts)") auto

definition sphere_systems ::
  "jsval \<Rightarrow> jsval \<Rightarrow> jsval \<Rightarrow> jsval upstream \<Rightarrow> effect list \<times> edsm_system list reply" where
  "sphere_systems systemName radiusParam minRadiusParam up =
     (let radius = js_or radiusParam (JNum (Finite 100));
          minRadius = js_or minRadiusParam (JNum (Finite 0))
      in if \<not> truthy systemName then
           ([], Reply 400 (ErrorJson (js ''System name is required'') None))
         else
           (case sphere_url systemName radius minRadius of
              Inl error \<Rightarrow>
                ([], Reply 500 (ErrorJson (js ''Failed to fetch data from EDSM sphere-systems'')
                                  (Some error)))
            | Inr edsmUrl \<Rightarrow>
                (case sphere_systems_retry up edsmUrl 3 0 None [] of
                   (effects, Inr reply) \<Rightarrow> (effects, reply)
                 | (effects, Inl error) \<Rightarrow>
                     (effects,
                      Reply 500 (ErrorJson (js ''Failed to fetch data from EDSM sphere-systems'')
                                   (Some error))))))"

subsection \<open>Bodies, JSON source\<close>

text \<open>The check for an empty response (line 211).\<close>

definition empty_response :: "jsval \<Rightarrow> bool" where
  "empty_response data =
     (\<not> truthy data \<or> (case data of JArr xs \<Rightarrow> length xs = 0 | _ \<Rightarrow> False))"

text \<open>
  On an empty response the counter goes up inside the \<open>try\<close> block; on the last
  attempt the block then throws, and the \<open>catch\<close> counts once more.
\<close>

function bodies_retry ::
  "jsval upstream \<Rightarrow> url \<Rightarrow> nat \<Rightarrow> nat \<Rightarrow> jsstring option \<Rightarrow> effect list
     \<Rightarrow> effect list \<times> jsval reply" where
  "bodies_retry up edsmUrl maxAttempts attempts lastError effects =
     (if attempts < maxAttempts then
        (case shd up of
           Rejects m \<Rightarrow>
             bodies_retry (stl up) edsmUrl maxAttempts (attempts + 1) (Some m)
               (wait_and_get attempts edsmUrl effects)
         | Resolves data \<Rightarrow>
             if empty_response data then
               (if attempts + 1 \<ge> maxAttempts then
                  bodies_retry (stl up) edsmUrl maxAttempts (attempts + 1 + 1)
                    (Some (js ''Empty response received from EDSM''))
                    (wait_and_get attempts edsmUrl effects)
                else
                  bodies_retry (stl up) edsmUrl maxAttempts (attempts + 1) lastError
                    (wait_and_get attempts edsmUrl effects))
             else (wait_and_get attempts edsmUrl effects, Reply 200 (Json data)))
      else
        (effects,
         Reply 500 (ErrorJson (js ''Failed to fetch data from EDSM'')
                      (Some (Text (last_message lastError))))))"
  by pat_completeness auto
termination
  by (relation "measure (\<lambda>(up, u, maxAttempts, attempts, lastError, effects).
                           maxAttempts - attempts)") auto

definition bodies :: "jsval \<Rightarrow> jsval upstream \<Rightarrow> effect list \<times> jsval reply" where
  "bodies systemName up =
     (if \<not> truthy systemName then
        ([], Reply 400 (ErrorJson (js ''System name is required'') None))
      else
        (case bodies_url systemName of
           Inr edsmUrl \<Rightarrow> bodies_retry up edsmUrl 3 0 None []
         | Inl error \<Rightarrow>
             ([], Reply 500 (ErrorJson (js ''Failed to fetch data from EDSM'') (Some error)))))"

subsection \<open>System coordinates, JSON source\<close>

text \<open>
  This loop has nothing after it: were it left by its condition, the handler would end
  without an answer, which is \<open>Inr None\<close> here.
\<close>

function system_retry ::
  "jsval upstream \<Rightarrow> url \<Rightarrow> nat \<Rightarrow> nat \<Rightarrow> effect list
     \<Rightarrow> effect list \<times> (message + jsval reply option)" where
  "system_retry up edsmUrl maxAttempts attempts effects =
     (if attempts < maxAttempts then
        (case shd up of
           Resolves data \<Rightarrow>
             (wait_and_get attempts edsmUrl effects, Inr (Some (Reply 200 (Json data))))
         | Rejects m \<Rightarrow>
             if attempts + 1 \<ge> maxAttempts then
               (wait_and_get attempts edsmUrl effects, Inl (Text m))
             else
               system_retry (stl up) edsmUrl maxAttempts (attempts + 1)
                 (wait_and_get attempts edsmUrl effects))
      else (effects, Inr None))"
  by pat_completeness auto
termination
  by (relation "measure (\<lambda>(up, u, maxAttempts, attempts, effects).
                           maxAttempts - attempts)") auto

definition system_coordinates ::
  "jsval \<Rightarrow> jsval upstream \<Rightarrow> effect list \<times> jsval reply option" where
  "system_coordinates systemName up =
     (if \<not> truthy systemName then
        ([], Some (Reply 400 (ErrorJson (js ''System name is required'') None)))
      else
        (case system_url systemName of
           Inl error \<Rightarrow>
             ([], Some (Reply 500 (ErrorJson (js ''Failed to fetch system data from EDSM'')
                                     (Some error))))
         | Inr edsmUrl \<Rightarrow>
             (case system_retry up edsmUrl 3 0 [] of
                (effects, Inr answer) \<Rightarrow> (effects, answer)
              | (effects, Inl error) \<Rightarrow>
                  (effects,
                   Some (Reply 500 (ErrorJson (js ''Failed to fetch system data from EDSM'')
                                      (Some error)))))))"

section \<open>Notions used in the statements\<close>

text \<open>
  The value of \<open>v.k\<close> where the read does not throw; \<open>undefined\<close> stands in where
  it would.
\<close>

definition read_prop :: "jsval \<Rightarrow> jsstring \<Rightarrow> jsval" where
  "read_prop v k = (case get_prop v k of Inr x \<Rightarrow> x | Inl e \<Rightarrow> JUndefined)"

definition nullish :: "jsval \<Rightarrow> bool" where
  "nullish v = (v = JUndefined \<or> v = JNull)"

text \<open>
  The allegiance as the specification words it, from the value the information block
  supplies (\<open>undefined\<close> for a missing key): "Independent" exactly for a missing key,
  null or the empty string, and the supplied value otherwise.
\<close>

definition spec_allegiance :: "jsval \<Rightarrow> jsval" where
  "spec_allegiance supplied =
     (if supplied = JUndefined \<or> supplied = JNull \<or> supplied = JStr []
      then JStr (js ''Independent'') else supplied)"

text \<open>The body rows of the systems table of a page; none when the table is not there.\<close>

definition body_rows :: "document \<Rightarrow> node list" where
  "body_rows doc =
     (case querySelector_table doc of
        None \<Rightarrow> []
      | Some table \<Rightarrow> querySelectorAll_tbody_tr table)"

text \<open>The message of the error when a call is rejected.\<close>

definition rejection :: "'a outcome \<Rightarrow> jsstring option" where
  "rejection result = (case result of Rejects m \<Rightarrow> Some m | Resolves data \<Rightarrow> None)"

text \<open>
  The message of the error with which an attempt of the bodies endpoint fails: the call
  is rejected, or the response is empty.
\<close>

definition bodies_failure :: "jsval outcome \<Rightarrow> jsstring option" where
  "bodies_failure result =
     (case result of
        Rejects m \<Rightarrow> Some m
      | Resolves data \<Rightarrow>
          if empty_response data then Some (js ''Empty response received from EDSM'') else None)"

text \<open>The calls and waits of a handler that uses its three attempts.\<close>

definition three_attempts :: "url \<Rightarrow> effect list" where
  "three_attempts u = [Get u, Wait 3000, Get u, Wait 6000, Get u]"

text \<open>
  The error with which an attempt of the sphere-systems endpoint fails: the \<open>try\<close>
  block throws it.
\<close>

definition sphere_systems_failure :: "jsval outcome \<Rightarrow> message option" where
  "sphere_systems_failure result =
     (case sphere_systems_attempt result of Inl error \<Rightarrow> Some error | Inr reply \<Rightarrow> None)"

text \<open>
  The calls and waits of a handler that makes one, two or three attempts, with 3000 ms
  before the second and 6000 ms before the third.
\<close>

definition schedules :: "url \<Rightarrow> effect list set" where
  "schedules u =
     {[Get u], [Get u, Wait 3000, Get u], [Get u, Wait 3000, Get u, Wait 6000, Get u]}"

text \<open>The first calls and waits of a handler: those of its first \<open>n\<close> attempts.\<close>

definition first_attempts :: "nat \<Rightarrow> url \<Rightarrow> effect list" where
  "first_attempts n u = take (2 * n - 1) (three_attempts u)"

subsection \<open>Example inputs\<close>

definition td :: "string \<Rightarrow> node" where
  "td s = Element (js ''td'') [] [TextNode (js s)]"

text \<open>
  A row whose faction count reads \<open>-5\<close> and whose arrow is rotated by 270 degrees.
\<close>

definition example_row :: node where
  "example_row =
     Element (js ''tr'') []
       [Element (js ''td'') [] [Element (js ''a'') [] [TextNode (js '' Sol '')]],
        td ''Refinery'', td ''High'', td ''Federation'', td ''-5'', td ''n/a'',
        Element (js ''td'') []
          [TextNode (js ''12.5 Ly''),
           Element (js ''span'')
             [(js ''class'', js ''minor distancedirection''),
              (js ''style'', js ''transform: rotate(270deg)'')] []]]"

text \<open>A row with two cells only.\<close>

definition short_row :: node where
  "short_row = Element (js ''tr'') [] [td ''a'', td ''b'']"

text \<open>
  The cells of a row with no number in the count columns, a whole-number distance and
  no arrow.
\<close>

definition unparsable_cells :: "node list" where
  "unparsable_cells =
     [td ''Achenar'', td '''', td '''', td '''', td ''none'', td '''', td ''12 Ly'']"

definition example_page :: document where
  "example_page =
     [Element (js ''html'') []
        [Element (js ''body'') []
           [Element (js ''table'') [(js ''class'', js ''tablesorter tablesortercollapsed'')]
              [Element (js ''tbody'') [] [short_row, example_row]]]]]"

text \<open>A record with no name, and records of every kind that has properties.\<close>

definition nameless_record :: jsval where
  "nameless_record = JObj [(js ''distance'', JNum (Finite 5))]"

definition false_allegiance_record :: jsval where
  "false_allegiance_record =
     JObj [(js ''name'', JStr (js ''Sol'')),
           (js ''information'', JObj [(js ''allegiance'', JBool False)])]"

definition federation_record :: jsval where
  "federation_record =
     JObj [(js ''name'', JStr (js ''Sol'')),
           (js ''information'', JObj [(js ''allegiance'', JStr (js ''Federation''))])]"

text \<open>
  A system name, an upstream that answers with the empty array after one rejected call,
  and upstreams on which every attempt fails.
\<close>

definition late_empty_upstream :: "jsval upstream" where
  "late_empty_upstream = Rejects (js ''Network Error'') ## sconst (Resolves (JArr []))"

definition sol :: jsval where
  "sol = JStr (js ''Sol'')"

definition failing_sphere_upstream :: "jsval upstream" where
  "failing_sphere_upstream =
     Resolves JNull
       ## Resolves (JObj [(js ''error'', JStr (js ''System not found''))])
       ## sconst (Resolves (JArr [JNull]))"

definition failing_bodies_upstream :: "jsval upstream" where
  "failing_bodies_upstream =
     Rejects (js ''timeout of 15000ms exceeded'')
       ## Resolves JNull
       ## sconst (Resolves (JArr []))"

section \<open>Properties of numbers\<close>

lemma rounds_to_zero_0 [simp]: "rounds_to_zero 0"
  by (simp add: rounds_to_zero_def)

lemma rounds_to_zero_of_int [simp]: "rounds_to_zero (of_int n) \<longleftrightarrow> n = 0"
proof (cases "n = 0")
  case True
  then show ?thesis by simp
next
  case False
  then have "1 \<le> \<bar>n\<bar>" by linarith
  then have "(of_int 1 :: rat) \<le> of_int \<bar>n\<bar>" by (simp only: of_int_le_iff)
  then have one: "(1::rat) \<le> \<bar>of_int n\<bar>" by simp
  have "(1::rat) < 2 ^ 1075" by (rule one_less_power) simp_all
  moreover from one have "1 * 2 ^ 1075 \<le> \<bar>of_int n :: rat\<bar> * 2 ^ 1075"
    by (rule mult_right_mono) simp
  ultimately have "\<not> \<bar>of_int n :: rat\<bar> * 2 ^ 1075 \<le> 1"
    by linarith
  with False show ?thesis by (simp add: rounds_to_zero_def)
qed

lemma rounds_to_zero_minus [simp]: "rounds_to_zero (- q) \<longleftrightarrow> rounds_to_zero q"
  by (simp add: rounds_to_zero_def)

lemma rounds_to_zero_numeral [simp]: "\<not> rounds_to_zero (numeral k)"
  using rounds_to_zero_of_int[of "numeral k"] by simp

lemma rounds_to_zero_1 [simp]: "\<not> rounds_to_zero 1"
  using rounds_to_zero_of_int[of 1] by simp

lemma threshold_positive: "(0::rat) < 2 ^ 1024 - 2 ^ 970"
proof -
  have "(2::rat) ^ 970 < 2 ^ 1024"
    by (rule power_strict_increasing) simp_all
  then show ?thesis by simp
qed

lemma number_value_0 [simp]: "number_value 0 = Finite 0"
  using threshold_positive by (simp add: number_value_def)

lemma number_value_not_NaN [simp]: "number_value q \<noteq> NaN"
  by (simp add: number_value_def)

lemma truthy_number_value_of_int: "truthy (JNum (number_value (of_int n))) \<longleftrightarrow> n \<noteq> 0"
  using threshold_positive by (cases "n = 0") (auto simp: number_value_def)


text \<open>Up to \<open>2^53\<close> in size, every integer is a double.\<close>

lemma number_value_small:
  assumes "\<bar>q\<bar> \<le> 2 ^ 53"
  shows "number_value q = Finite q"
proof -
  have "(2::rat) ^ 53 < 2 ^ 1024 - 2 ^ 970"
    by simp
  with assms have "\<bar>q\<bar> < 2 ^ 1024 - 2 ^ 970" by linarith
  then show ?thesis by (auto simp: number_value_def)
qed

lemma number_value_FiniteD: "Finite r = number_value q \<Longrightarrow> q = r"
  by (simp add: number_value_def split: if_splits)

section \<open>Properties of the normalizer\<close>

lemma get_prop_not_nullish: "\<not> nullish v \<Longrightarrow> get_prop v k = Inr (read_prop v k)"
  by (cases v) (simp_all add: read_prop_def nullish_def)

lemma get_prop_nullish: "nullish v \<Longrightarrow> get_prop v k = Inl (CannotRead v k)"
  by (auto simp: nullish_def)

lemma js_or_object_not_nullish: "\<not> nullish (js_or v (JObj ps))"
  by (cases v) (simp_all add: js_or_def nullish_def)

lemma read_prop_js_or_object: "read_prop (js_or v (JObj [])) k = read_prop v k"
  by (cases v) (simp_all add: js_or_def read_prop_def)

lemma read_prop_falsy: "\<not> truthy v \<Longrightarrow> read_prop v k = JUndefined"
  by (cases v) (simp_all add: read_prop_def)

lemma formatEdsmSystem_not_nullish:
  assumes "\<not> nullish sys"
  shows "formatEdsmSystem sys =
    Inr \<lparr> name = read_prop sys (js ''name''),
          economy = js_or (read_prop (read_prop sys (js ''information'')) (js ''economy'')) (JStr []),
          security = js_or (read_prop (read_prop sys (js ''information'')) (js ''security'')) (JStr []),
          allegiance = js_or (read_prop (read_prop sys (js ''information'')) (js ''allegiance''))
                         (JStr (js ''Independent'')),
          factions = (if truthy (read_prop (read_prop sys (js ''information'')) (js ''faction''))
                      then JNum (Finite 1) else JNum (Finite 0)),
          stations = JNum (Finite 0),
          distance = js_or (read_prop sys (js ''distance'')) JNull,
          direction = JNull,
          bodyCount = js_or (read_prop sys (js ''bodyCount'')) (JNum (Finite 0)) \<rparr>"
  unfolding formatEdsmSystem_def Let_def
  by (simp only: get_prop_not_nullish[OF assms] get_prop_not_nullish[OF js_or_object_not_nullish]
        and_then_def sum.case read_prop_js_or_object)

lemma formatEdsmSystem_nullish:
  "nullish sys \<Longrightarrow> formatEdsmSystem sys = Inl (CannotRead sys (js ''information''))"
  unfolding formatEdsmSystem_def by (simp only: get_prop_nullish and_then_def sum.case)

lemma formatEdsmSystem_Inr_iff: "(\<exists>r. formatEdsmSystem sys = Inr r) \<longleftrightarrow> \<not> nullish sys"
proof (cases "nullish sys")
  case True
  then show ?thesis by (simp add: formatEdsmSystem_nullish)
next
  case False
  then show ?thesis by (simp add: formatEdsmSystem_not_nullish)
qed

lemma array_map_Inr_iff:
  "array_map f xs = Inr ys \<longleftrightarrow> list_all2 (\<lambda>x y. f x = Inr y) xs ys"
proof (induction xs arbitrary: ys)
  case Nil
  show ?case by auto
next
  case (Cons x xs)
  show ?case
  proof (cases "f x")
    case (Inl e)
    then show ?thesis by (simp add: and_then_def list_all2_Cons1)
  next
    case (Inr y)
    show ?thesis
    proof (cases "array_map f xs")
      case (Inl e)
      with Cons[of "tl ys"] Inr show ?thesis
        by (auto simp: and_then_def list_all2_Cons1)
    next
      case r: (Inr zs)
      with Cons Inr show ?thesis
        by (auto simp: and_then_def list_all2_Cons1)
    qed
  qed
qed

lemma array_map_Inr_ex_iff:
  "(\<exists>ys. array_map f xs = Inr ys) \<longleftrightarrow> (\<forall>x\<in>set xs. \<exists>y. f x = Inr y)"
  by (induction xs) (auto simp: and_then_def split: sum.splits)

lemma formatEdsmSystem_absent_information:
  assumes "formatEdsmSystem sys = Inr r"
  shows "(\<not> truthy (read_prop sys (js ''information'')) \<longrightarrow>
           economy r = JStr [] \<and> security r = JStr [] \<and>
           allegiance r = JStr (js ''Independent'') \<and> factions r = JNum (Finite 0) \<and>
           stations r = JNum (Finite 0) \<and> direction r = JNull)
         \<and> allegiance r =
             (if truthy (read_prop (read_prop sys (js ''information'')) (js ''allegiance''))
              then read_prop (read_prop sys (js ''information'')) (js ''allegiance'')
              else JStr (js ''Independent''))"
proof -
  from assms have nn: "\<not> nullish sys"
    using formatEdsmSystem_Inr_iff by blast
  from assms formatEdsmSystem_not_nullish[OF nn] have r: "r =
    \<lparr> name = read_prop sys (js ''name''),
          economy = js_or (read_prop (read_prop sys (js ''information'')) (js ''economy'')) (JStr []),
          security = js_or (read_prop (read_prop sys (js ''information'')) (js ''security'')) (JStr []),
          allegiance = js_or (read_prop (read_prop sys (js ''information'')) (js ''allegiance''))
                         (JStr (js ''Independent'')),
          factions = (if truthy (read_prop (read_prop sys (js ''information'')) (js ''faction''))
                      then JNum (Finite 1) else JNum (Finite 0)),
          stations = JNum (Finite 0),
          distance = js_or (read_prop sys (js ''distance'')) JNull,
          direction = JNull,
          bodyCount = js_or (read_prop sys (js ''bodyCount'')) (JNum (Finite 0)) \<rparr>"
    by simp
  show ?thesis
    by (simp add: r read_prop_falsy js_or_def)
qed

text \<open>
  Claim C1, as amended. For every record of an array that \<open>formatEdsmSystems\<close>
  formats: when the record has no information block (the key is missing, or its value is
  null or another falsy value), the record comes out with economy "", security "",
  allegiance "Independent", factions 0, stations 0 and direction null; and in every case
  the allegiance is the value the information block supplies when that value is truthy,
  and "Independent" when it is falsy: a missing key, null, the empty string, and also
  false, 0 and NaN.
\<close>

theorem formatEdsmSystems_defaults:
  assumes "formatEdsmSystems edsmSystems = Inr formatted"
  shows "list_all2 (\<lambda>sys r.
           (\<not> truthy (read_prop sys (js ''information'')) \<longrightarrow>
              economy r = JStr [] \<and> security r = JStr [] \<and>
              allegiance r = JStr (js ''Independent'') \<and> factions r = JNum (Finite 0) \<and>
              stations r = JNum (Finite 0) \<and> direction r = JNull)
           \<and> allegiance r =
               (if truthy (read_prop (read_prop sys (js ''information'')) (js ''allegiance''))
                then read_prop (read_prop sys (js ''information'')) (js ''allegiance'')
                else JStr (js ''Independent'')))
         edsmSystems formatted"
proof -
  from assms have "list_all2 (\<lambda>sys r. formatEdsmSystem sys = Inr r) edsmSystems formatted"
    by (simp add: formatEdsmSystems_def array_map_Inr_iff)
  then show ?thesis
    by (rule list_all2_mono) (rule formatEdsmSystem_absent_information)
qed

text \<open>The theorem at a record with no information block and one with an allegiance.\<close>

theorem formatEdsmSystems_defaults_witness:
  "formatEdsmSystems [nameless_record, federation_record] =
     Inr [\<lparr> name = JUndefined, economy = JStr [], security = JStr [],
             allegiance = JStr (js ''Independent''), factions = JNum (Finite 0),
             stations = JNum (Finite 0), distance = JNum (Finite 5), direction = JNull,
             bodyCount = JNum (Finite 0) \<rparr>,
          \<lparr> name = JStr (js ''Sol''), economy = JStr [], security = JStr [],
             allegiance = JStr (js ''Federation''), factions = JNum (Finite 0),
             stations = JNum (Finite 0), distance = JNull, direction = JNull,
             bodyCount = JNum (Finite 0) \<rparr>]
   \<and> read_prop (read_prop federation_record (js ''information'')) (js ''allegiance'')
       = JStr (js ''Federation'')
   \<and> \<not> truthy (read_prop nameless_record (js ''information''))"
proof -
  have run: "formatEdsmSystems [nameless_record, federation_record] =
     Inr [\<lparr> name = JUndefined, economy = JStr [], security = JStr [],
             allegiance = JStr (js ''Independent''), factions = JNum (Finite 0),
             stations = JNum (Finite 0), distance = JNum (Finite 5), direction = JNull,
             bodyCount = JNum (Finite 0) \<rparr>,
          \<lparr> name = JStr (js ''Sol''), economy = JStr [], security = JStr [],
             allegiance = JStr (js ''Federation''), factions = JNum (Finite 0),
             stations = JNum (Finite 0), distance = JNull, direction = JNull,
             bodyCount = JNum (Finite 0) \<rparr>]"
    by (simp add: formatEdsmSystems_def formatEdsmSystem_def and_then_def js_or_def
          nameless_record_def federation_record_def)
  from formatEdsmSystems_defaults[OF run] run show ?thesis
    by (simp add: read_prop_def nameless_record_def federation_record_def)
qed

text \<open>
  Claim C1 as stated fails where the source supplies the allegiance \<open>false\<close>: that
  is a supplied value, neither a missing key nor null nor the empty string, so the claim
  gives \<open>false\<close>, and the code gives "Independent".
\<close>

theorem formatEdsmSystems_false_allegiance:
  "formatEdsmSystems [false_allegiance_record] =
     Inr [\<lparr> name = JStr (js ''Sol''), economy = JStr [], security = JStr [],
             allegiance = JStr (js ''Independent''), factions = JNum (Finite 0),
             stations = JNum (Finite 0), distance = JNull, direction = JNull,
             bodyCount = JNum (Finite 0) \<rparr>]
   \<and> read_prop (read_prop false_allegiance_record (js ''information'')) (js ''allegiance'')
       = JBool False
   \<and> spec_allegiance (JBool False) = JBool False"
  by (simp add: formatEdsmSystems_def formatEdsmSystem_def and_then_def js_or_def
        false_allegiance_record_def read_prop_def spec_allegiance_def)

text \<open>
  Claim C6: every record has all canonical fields with defined values, whatever keys
  the source record supplies. On a source record without a \<open>name\<close> key the
  name of the formatted record is \<open>undefined\<close>: it has no default, where every
  other field has one.
\<close>

theorem formatEdsmSystems_name_undefined:
  "formatEdsmSystems [nameless_record] =
     Inr [\<lparr> name = JUndefined, economy = JStr [], security = JStr [],
             allegiance = JStr (js ''Independent''), factions = JNum (Finite 0),
             stations = JNum (Finite 0), distance = JNum (Finite 5), direction = JNull,
             bodyCount = JNum (Finite 0) \<rparr>]"
  by (simp add: formatEdsmSystems_def formatEdsmSystem_def and_then_def js_or_def
        nameless_record_def)

text \<open>Every other field of the JSON path is defined.\<close>

lemma js_or_defined: "d \<noteq> JUndefined \<Longrightarrow> js_or v d \<noteq> JUndefined"
  by (cases v) (simp_all add: js_or_def)

lemma formatEdsmSystem_fields_defined:
  assumes "formatEdsmSystem sys = Inr r"
  shows "economy r \<noteq> JUndefined \<and> security r \<noteq> JUndefined \<and> allegiance r \<noteq> JUndefined
       \<and> factions r \<noteq> JUndefined \<and> stations r \<noteq> JUndefined \<and> distance r \<noteq> JUndefined
       \<and> direction r \<noteq> JUndefined \<and> bodyCount r \<noteq> JUndefined
       \<and> name r = read_prop sys (js ''name'')"
proof -
  from assms have nn: "\<not> nullish sys"
    using formatEdsmSystem_Inr_iff by blast
  from assms formatEdsmSystem_not_nullish[OF nn] show ?thesis
    by (auto simp: js_or_defined split: if_splits)
qed

text \<open>
  Claim C7 as stated fails on an array with a null element: the read of
  \<open>information\<close> on it throws.
\<close>

theorem formatEdsmSystems_null_element:
  "formatEdsmSystems [federation_record, JNull] = Inl (CannotRead JNull (js ''information''))"
  by (simp add: formatEdsmSystems_def formatEdsmSystem_def and_then_def js_or_def
        federation_record_def)

text \<open>
  Claim C7, as amended. \<open>formatEdsmSystems\<close> returns, with one record for each
  element of the input and in the same order, exactly on the arrays that hold no
  \<open>null\<close> and no \<open>undefined\<close> element; every other element, of whatever
  shape, is formatted and none is dropped.
\<close>

theorem formatEdsmSystems_returns_iff:
  "(\<exists>formatted. formatEdsmSystems edsmSystems = Inr formatted
       \<and> length formatted = length edsmSystems
       \<and> (\<forall>i < length edsmSystems. formatEdsmSystem (edsmSystems ! i) = Inr (formatted ! i)))
   \<longleftrightarrow> (\<forall>sys \<in> set edsmSystems. \<not> nullish sys)"
proof
  assume "\<exists>formatted. formatEdsmSystems edsmSystems = Inr formatted
       \<and> length formatted = length edsmSystems
       \<and> (\<forall>i < length edsmSystems. formatEdsmSystem (edsmSystems ! i) = Inr (formatted ! i))"
  then have "\<exists>ys. array_map formatEdsmSystem edsmSystems = Inr ys"
    by (auto simp: formatEdsmSystems_def)
  then show "\<forall>sys \<in> set edsmSystems. \<not> nullish sys"
    by (simp add: array_map_Inr_ex_iff formatEdsmSystem_Inr_iff)
next
  assume "\<forall>sys \<in> set edsmSystems. \<not> nullish sys"
  then have "\<exists>ys. array_map formatEdsmSystem edsmSystems = Inr ys"
    by (simp add: array_map_Inr_ex_iff formatEdsmSystem_Inr_iff)
  then obtain ys where ys: "array_map formatEdsmSystem edsmSystems = Inr ys" ..
  then have "list_all2 (\<lambda>x y. formatEdsmSystem x = Inr y) edsmSystems ys"
    by (simp add: array_map_Inr_iff)
  then have "length ys = length edsmSystems
      \<and> (\<forall>i < length edsmSystems. formatEdsmSystem (edsmSystems ! i) = Inr (ys ! i))"
    by (auto simp: list_all2_conv_all_nth)
  with ys show "\<exists>formatted. formatEdsmSystems edsmSystems = Inr formatted
       \<and> length formatted = length edsmSystems
       \<and> (\<forall>i < length edsmSystems. formatEdsmSystem (edsmSystems ! i) = Inr (formatted ! i))"
    by (auto simp: formatEdsmSystems_def)
qed

text \<open>The theorem at an array of an object, a string and an array.\<close>

theorem formatEdsmSystems_returns_witness:
  "(\<not> nullish nameless_record \<and> \<not> nullish (JStr (js ''x'')) \<and> \<not> nullish (JArr []))
   \<and> (\<exists>formatted. formatEdsmSystems [nameless_record, JStr (js ''x''), JArr []] = Inr formatted
         \<and> length formatted = 3)"
  using formatEdsmSystems_returns_iff [of "[nameless_record, JStr (js ''x''), JArr []]"]
  by (auto simp: nullish_def nameless_record_def)

section \<open>Properties of the extractor\<close>

subsection \<open>The loop over the rows\<close>

lemma foldl_push_row:
  "foldl push_row systems rows =
     systems @ map (\<lambda>row. extract_row (querySelectorAll_td row))
                 (filter (\<lambda>row. 7 \<le> length (querySelectorAll_td row)) rows)"
  by (induction rows arbitrary: systems) (simp_all add: push_row_def Let_def)

lemma parseInaraSystemsHtml_map_filter:
  "parseInaraSystemsHtml doc =
     map (\<lambda>row. extract_row (querySelectorAll_td row))
       (filter (\<lambda>row. 7 \<le> length (querySelectorAll_td row)) (body_rows doc))"
  by (simp add: parseInaraSystemsHtml_def body_rows_def foldl_push_row split: option.splits)

subsection \<open>Numbers read from text\<close>

lemma set_trim: "set (trim s) \<subseteq> set s"
proof -
  have "set (trim s) \<subseteq> set (dropWhile is_whitespace s)"
    unfolding trim_def using set_dropWhileD[of _ is_whitespace "rev (dropWhile is_whitespace s)"]
    by auto
  also have "\<dots> \<subseteq> set s"
    using set_dropWhileD[of _ is_whitespace s] by auto
  finally show ?thesis .
qed

lemma parseInt_cases:
  "parseInt s = NaN \<or> (\<exists>n::int. parseInt s = number_value (of_int n) \<and> (n < 0 \<longrightarrow> 45 \<in> set s))"
proof -
  define S where "S = dropWhile is_whitespace s"
  define sign :: int where "sign = (if S \<noteq> [] \<and> hd S = 45 then - 1 else 1)"
  define S1 where "S1 = (if S \<noteq> [] \<and> (hd S = 43 \<or> hd S = 45) then tl S else S)"
  define stripPrefix where "stripPrefix = (take 2 S1 = js ''0x'' \<or> take 2 S1 = js ''0X'')"
  define R :: nat where "R = (if stripPrefix then 16 else 10)"
  define Z where "Z = takeWhile (is_radix_digit R) (if stripPrefix then drop 2 S1 else S1)"
  have p: "parseInt s =
             (if Z = [] then NaN else number_value (of_int (sign * int (radix_value R Z))))"
    unfolding parseInt_def Let_def S_def sign_def S1_def stripPrefix_def R_def Z_def ..
  have minus: "45 \<in> set s" if "sign * int (radix_value R Z) < 0"
  proof -
    from that have "sign < 0"
      by (simp add: mult_less_0_iff)
    then have "S \<noteq> [] \<and> hd S = 45"
      by (simp add: sign_def split: if_splits)
    then have "45 \<in> set S"
      using hd_in_set[of S] by auto
    then show ?thesis
      using set_dropWhileD[of 45 is_whitespace s] by (simp add: S_def)
  qed
  show ?thesis
  proof (cases "Z = []")
    case True
    with p show ?thesis by simp
  next
    case False
    with p have "parseInt s = number_value (of_int (sign * int (radix_value R Z)))" by simp
    with minus show ?thesis by blast
  qed
qed

lemma count_or_zero:
  "\<exists>n::int. js_or (JNum (parseInt s)) (JNum (Finite 0)) = JNum (number_value (of_int n))
      \<and> (n < 0 \<longrightarrow> 45 \<in> set s)"
  using parseInt_cases[of s]
proof
  assume "parseInt s = NaN"
  then have "js_or (JNum (parseInt s)) (JNum (Finite 0)) = JNum (number_value (of_int 0))"
    by (simp add: js_or_def)
  then show ?thesis by blast
next
  assume "\<exists>n::int. parseInt s = number_value (of_int n) \<and> (n < 0 \<longrightarrow> 45 \<in> set s)"
  then obtain n :: int where n: "parseInt s = number_value (of_int n)" "n < 0 \<longrightarrow> 45 \<in> set s"
    by blast
  show ?thesis
  proof (cases "n = 0")
    case True
    with n have "js_or (JNum (parseInt s)) (JNum (Finite 0)) = JNum (number_value (of_int 0))"
      by (simp add: js_or_def)
    then show ?thesis by blast
  next
    case False
    with n have "js_or (JNum (parseInt s)) (JNum (Finite 0)) = JNum (number_value (of_int n))"
      by (simp add: js_or_def truthy_number_value_of_int del: truthy.simps)
    with n show ?thesis by blast
  qed
qed


subsection \<open>The two patterns\<close>

lemma regex_search_Some_iff:
  "(\<exists>g. regex_search pat s = Some g) \<longleftrightarrow> (\<exists>before rest g. s = before @ rest \<and> pat rest = Some g)"
proof (induction s)
  case Nil
  show ?case by simp
next
  case (Cons c cs)
  show ?case
  proof (cases "pat (c # cs)")
    case (Some g)
    then have "c # cs = [] @ (c # cs) \<and> pat (c # cs) = Some g" by simp
    then have "\<exists>before rest g. c # cs = before @ rest \<and> pat rest = Some g" by blast
    with Some show ?thesis by simp
  next
    case None
    have "(\<exists>before rest g. c # cs = before @ rest \<and> pat rest = Some g)
          \<longleftrightarrow> (\<exists>before rest g. cs = before @ rest \<and> pat rest = Some g)"
    proof
      assume "\<exists>before rest g. c # cs = before @ rest \<and> pat rest = Some g"
      then obtain before rest g where b: "c # cs = before @ rest" "pat rest = Some g" by blast
      with None have "before \<noteq> []" by (cases before) auto
      with b have "cs = tl before @ rest" by (cases before) auto
      with b show "\<exists>before rest g. cs = before @ rest \<and> pat rest = Some g" by blast
    next
      assume "\<exists>before rest g. cs = before @ rest \<and> pat rest = Some g"
      then obtain before rest g where b: "cs = before @ rest" "pat rest = Some g" by blast
      then have "c # cs = (c # before) @ rest" by simp
      with b show "\<exists>before rest g. c # cs = before @ rest \<and> pat rest = Some g" by blast
    qed
    with None Cons show ?thesis by simp
  qed
qed

lemma regex_search_SomeD:
  "regex_search pat s = Some g \<Longrightarrow> \<exists>before rest. s = before @ rest \<and> pat rest = Some g"
  by (induction s) (auto split: option.splits intro: append_Nil[symmetric] Cons_eq_appendI)

lemma whitespace_not_digit: "is_whitespace c \<Longrightarrow> \<not> is_digit c"
  by (auto simp: is_whitespace_def is_digit_def)

lemma distance_at_SomeD:
  assumes "distance_at s = Some g"
  shows "\<exists>whole fraction spaces rest.
           s = whole @ [46] @ fraction @ spaces @ js ''Ly'' @ rest \<and> g = whole @ [46] @ fraction
         \<and> whole \<noteq> [] \<and> fraction \<noteq> [] \<and> list_all is_digit whole \<and> list_all is_digit fraction
         \<and> list_all is_whitespace spaces"
proof -
  define whole where "whole = takeWhile is_digit s"
  define s1 where "s1 = dropWhile is_digit s"
  define fraction where "fraction = takeWhile is_digit (tl s1)"
  define r where "r = dropWhile is_digit (tl s1)"
  define spaces where "spaces = takeWhile is_whitespace r"
  define s2 where "s2 = dropWhile is_whitespace r"
  from assms have c: "whole \<noteq> []" "s1 \<noteq> []" "hd s1 = 46" "fraction \<noteq> []" "take 2 s2 = js ''Ly''"
    and g: "g = whole @ [46] @ fraction"
    unfolding distance_at_def Let_def whole_def s1_def fraction_def r_def s2_def
    by (auto split: if_splits)
  have "s = whole @ s1" by (simp add: whole_def s1_def)
  moreover from c have "s1 = 46 # tl s1" by (cases s1) auto
  moreover have "tl s1 = fraction @ r" by (simp add: fraction_def r_def)
  moreover have "r = spaces @ s2" by (simp add: spaces_def s2_def)
  moreover from c have "s2 = js ''Ly'' @ drop 2 s2"
    by (metis append_take_drop_id)
  ultimately have "s = whole @ [46] @ fraction @ spaces @ js ''Ly'' @ drop 2 s2"
    by (metis append_Cons append_Nil)
  moreover have "list_all is_digit whole" "list_all is_digit fraction" "list_all is_whitespace spaces"
    by (auto simp: whole_def fraction_def spaces_def list_all_iff dest: set_takeWhileD)
  ultimately show ?thesis using c g by blast
qed

lemma distance_at_SomeI:
  assumes "whole \<noteq> []" "fraction \<noteq> []" "list_all is_digit whole" "list_all is_digit fraction"
    "list_all is_whitespace spaces"
  shows "distance_at (whole @ [46] @ fraction @ spaces @ js ''Ly'' @ rest) = Some (whole @ [46] @ fraction)"
proof -
  define unit where "unit = js ''Ly'' @ rest"
  have unit: "unit = 76 # 121 # rest" by (simp add: unit_def)
  have nd: "\<not> is_digit 46" "\<not> is_digit 76" "\<not> is_whitespace 76"
    by (simp_all add: is_digit_def is_whitespace_def)
  from assms have w: "\<And>x. x \<in> set whole \<Longrightarrow> is_digit x" and f: "\<And>x. x \<in> set fraction \<Longrightarrow> is_digit x"
    and sp: "\<And>x. x \<in> set spaces \<Longrightarrow> is_whitespace x"
    by (auto simp: list_all_iff)
  have t1: "takeWhile is_digit (whole @ 46 # fraction @ spaces @ unit) = whole"
    using w nd by (simp add: takeWhile_append2)
  have d1: "dropWhile is_digit (whole @ 46 # fraction @ spaces @ unit) = 46 # fraction @ spaces @ unit"
    using w nd by (simp add: dropWhile_append2)
  have sp_nd: "takeWhile is_digit (spaces @ unit) = []"
    using sp nd whitespace_not_digit by (cases spaces) (auto simp: unit)
  have sp_dd: "dropWhile is_digit (spaces @ unit) = spaces @ unit"
    using sp nd whitespace_not_digit by (cases spaces) (auto simp: unit)
  have t2: "takeWhile is_digit (fraction @ spaces @ unit) = fraction"
    using f sp_nd by (simp add: takeWhile_append2)
  have d2: "dropWhile is_digit (fraction @ spaces @ unit) = spaces @ unit"
    using f sp_dd by (simp add: dropWhile_append2)
  have d3: "dropWhile is_whitespace (spaces @ unit) = unit"
    using sp nd by (simp add: dropWhile_append2 unit)
  have "distance_at (whole @ 46 # fraction @ spaces @ unit) = Some (whole @ [46] @ fraction)"
    unfolding distance_at_def Let_def t1 d1 list.sel t2 d2 d3
    using assms(1,2) by (simp add: unit)
  then show ?thesis by (simp add: unit_def)
qed

lemma rotate_at_SomeD:
  assumes "rotate_at s = Some g"
  shows "\<exists>sign digits. g = sign @ digits \<and> (sign = [] \<or> sign = [45]) \<and> digits \<noteq> []
            \<and> list_all is_digit digits"
proof -
  define s1 where "s1 = drop 7 s"
  define sign :: jsstring where "sign = (if s1 \<noteq> [] \<and> hd s1 = 45 then [45] else [])"
  define digits where "digits = takeWhile is_digit (drop (length sign) s1)"
  define s3 where "s3 = dropWhile is_digit (drop (length sign) s1)"
  have "rotate_at s =
          (if take 7 s = js ''rotate('' \<and> digits \<noteq> [] \<and> take 4 s3 = js ''deg)''
           then Some (sign @ digits) else None)"
    unfolding rotate_at_def Let_def s1_def sign_def digits_def s3_def ..
  with assms have "g = sign @ digits" "digits \<noteq> []"
    by (simp_all split: if_splits)
  moreover have "sign = [] \<or> sign = [45]"
    by (simp add: sign_def)
  moreover have "list_all is_digit digits"
    by (auto simp: digits_def list_all_iff dest: set_takeWhileD)
  ultimately show ?thesis by blast
qed

lemma digit_radix_10: "is_digit c \<Longrightarrow> is_radix_digit 10 c"
  by (auto simp: is_digit_def is_radix_digit_def digit_of_def)

lemma take_2_digits:
  assumes "list_all is_digit digits"
  shows "take 2 digits \<noteq> js ''0x'' \<and> take 2 digits \<noteq> js ''0X''"
proof -
  have "\<not> is_digit 120" "\<not> is_digit 88" by (simp_all add: is_digit_def)
  moreover have "set (take 2 digits) \<subseteq> set digits" by (rule set_take_subset)
  ultimately show ?thesis using assms by (auto simp: list_all_iff)
qed

lemma parseInt_digits:
  assumes "digits \<noteq> []" "list_all is_digit digits"
  shows "parseInt digits \<noteq> NaN"
proof -
  from assms have h: "is_digit (hd digits)" by (cases digits) auto
  then have "\<not> is_whitespace (hd digits)" "hd digits \<noteq> 45" "hd digits \<noteq> 43"
    by (auto simp: is_digit_def is_whitespace_def)
  with assms have S: "dropWhile is_whitespace digits = digits" by (cases digits) auto
  from assms have Z: "takeWhile (is_radix_digit 10) digits = digits"
    by (auto simp: list_all_iff digit_radix_10)
  show ?thesis
    unfolding parseInt_def Let_def S
    using take_2_digits[OF assms(2)] assms(1) \<open>hd digits \<noteq> 45\<close> \<open>hd digits \<noteq> 43\<close>
    by (simp add: Z)
qed

lemma parseInt_minus_digits:
  assumes "digits \<noteq> []" "list_all is_digit digits"
  shows "parseInt (45 # digits) \<noteq> NaN"
proof -
  have S: "dropWhile is_whitespace (45 # digits) = 45 # digits"
    by (simp add: is_whitespace_def)
  from assms have Z: "takeWhile (is_radix_digit 10) digits = digits"
    by (auto simp: list_all_iff digit_radix_10)
  show ?thesis
    unfolding parseInt_def Let_def S
    using take_2_digits[OF assms(2)] assms(1)
    by (simp add: Z)
qed

lemma rotation_integer:
  assumes "regex_search rotate_at s = Some g"
  shows "\<exists>n::int. parseInt g = number_value (of_int n)"
proof -
  from regex_search_SomeD[OF assms] obtain rest where "rotate_at rest = Some g" by blast
  from rotate_at_SomeD[OF this] obtain sign digits where
    g: "g = sign @ digits" "sign = [] \<or> sign = [45]" "digits \<noteq> []" "list_all is_digit digits"
    by blast
  from g have "parseInt g \<noteq> NaN"
    using parseInt_digits[of digits] parseInt_minus_digits[of digits] by auto
  with parseInt_cases[of g] show ?thesis by blast
qed

lemma rotateMatch_integer:
  "rotateMatch cell = Some g \<Longrightarrow> \<exists>n::int. parseInt g = number_value (of_int n)"
  unfolding rotateMatch_def
  by (auto split: option.splits if_splits dest: rotation_integer)


subsection \<open>The fields of a row\<close>

lemma extract_row_fields:
  "factions (extract_row cells) = js_or (JNum (parseInt (trim (textContent (cells ! 4))))) (JNum (Finite 0))"
  "stations (extract_row cells) = js_or (JNum (parseInt (trim (textContent (cells ! 5))))) (JNum (Finite 0))"
  "distance (extract_row cells) =
     (case regex_search distance_at (trim (textContent (cells ! 6))) of
        Some g \<Rightarrow> JNum (parseFloat g) | None \<Rightarrow> JNull)"
  "direction (extract_row cells) =
     (case rotateMatch (cells ! 6) of Some g \<Rightarrow> JNum (parseInt g) | None \<Rightarrow> JNull)"
  by (simp_all add: extract_row_def Let_def)

lemma distance_not_null_iff:
  "distance (extract_row cells) \<noteq> JNull \<longleftrightarrow>
     (\<exists>before whole fraction spaces rest.
        trim (textContent (cells ! 6)) = before @ whole @ [46] @ fraction @ spaces @ js ''Ly'' @ rest
      \<and> whole \<noteq> [] \<and> fraction \<noteq> [] \<and> list_all is_digit whole \<and> list_all is_digit fraction
      \<and> list_all is_whitespace spaces)"
proof -
  let ?t = "trim (textContent (cells ! 6))"
  have "distance (extract_row cells) \<noteq> JNull \<longleftrightarrow> (\<exists>g. regex_search distance_at ?t = Some g)"
    by (simp add: extract_row_fields split: option.splits)
  also have "\<dots> \<longleftrightarrow> (\<exists>before rest g. ?t = before @ rest \<and> distance_at rest = Some g)"
    by (rule regex_search_Some_iff)
  also have "\<dots> \<longleftrightarrow> (\<exists>before whole fraction spaces rest.
        ?t = before @ whole @ [46] @ fraction @ spaces @ js ''Ly'' @ rest
      \<and> whole \<noteq> [] \<and> fraction \<noteq> [] \<and> list_all is_digit whole \<and> list_all is_digit fraction
      \<and> list_all is_whitespace spaces)"
  proof
    assume "\<exists>before rest g. ?t = before @ rest \<and> distance_at rest = Some g"
    then obtain before rest g where t: "?t = before @ rest" and d: "distance_at rest = Some g"
      by blast
    from distance_at_SomeD[OF d] t
    show "\<exists>before whole fraction spaces rest.
        ?t = before @ whole @ [46] @ fraction @ spaces @ js ''Ly'' @ rest
      \<and> whole \<noteq> [] \<and> fraction \<noteq> [] \<and> list_all is_digit whole \<and> list_all is_digit fraction
      \<and> list_all is_whitespace spaces"
      by metis
  next
    assume "\<exists>before whole fraction spaces rest.
        ?t = before @ whole @ [46] @ fraction @ spaces @ js ''Ly'' @ rest
      \<and> whole \<noteq> [] \<and> fraction \<noteq> [] \<and> list_all is_digit whole \<and> list_all is_digit fraction
      \<and> list_all is_whitespace spaces"
    then obtain before whole fraction spaces rest where
      t: "?t = before @ whole @ [46] @ fraction @ spaces @ js ''Ly'' @ rest" and
      c: "whole \<noteq> []" "fraction \<noteq> []" "list_all is_digit whole" "list_all is_digit fraction"
         "list_all is_whitespace spaces"
      by blast
    from distance_at_SomeI[OF c, of rest] t
    show "\<exists>before rest g. ?t = before @ rest \<and> distance_at rest = Some g"
      by blast
  qed
  finally show ?thesis .
qed

lemma whole_number_no_point:
  assumes "list_all is_digit digits" "list_all is_whitespace gap"
  shows "46 \<notin> set (digits @ gap @ js ''Ly'')"
proof -
  have "\<not> is_digit 46" "\<not> is_whitespace 46"
    by (simp_all add: is_digit_def is_whitespace_def)
  with assms show ?thesis
    by (auto simp: list_all_iff)
qed

text \<open>Every field of a record of the scraped path is defined.\<close>

lemma extract_row_fields_defined:
  "name (extract_row cells) \<noteq> JUndefined \<and> economy (extract_row cells) \<noteq> JUndefined
   \<and> security (extract_row cells) \<noteq> JUndefined \<and> allegiance (extract_row cells) \<noteq> JUndefined
   \<and> factions (extract_row cells) \<noteq> JUndefined \<and> stations (extract_row cells) \<noteq> JUndefined
   \<and> distance (extract_row cells) \<noteq> JUndefined \<and> direction (extract_row cells) \<noteq> JUndefined"
  by (simp add: extract_row_def Let_def js_or_def split: option.splits)


text \<open>The definitions that evaluate the extractor on a given tree.\<close>

lemmas evaluate_extractor =
  parseInaraSystemsHtml_def querySelector_table_def has_class_def querySelectorAll_tbody_tr_def
  push_row_def querySelectorAll_td_def descendants_def extract_row_def querySelector_a_def
  trim_def is_whitespace_def js_or_def parseInt_def is_radix_digit_def digit_of_def
  radix_value_def distance_at_def is_digit_def parseFloat_def exponent_part_def rotateMatch_def
  querySelector_distancedirection_def rotate_at_def body_rows_def number_value_small Let_def

text \<open>The example cells and the example page, evaluated.\<close>

lemma unparsable_cells_fields:
  "length unparsable_cells = 7"
  "parseInt (trim (textContent (unparsable_cells ! 4))) = NaN"
  "parseInt (trim (textContent (unparsable_cells ! 5))) = NaN"
  "regex_search distance_at (trim (textContent (unparsable_cells ! 6))) = None"
  "rotateMatch (unparsable_cells ! 6) = None"
  "trim (textContent (unparsable_cells ! 6)) = js ''12'' @ js '' '' @ js ''Ly''"
  by (simp_all add: unparsable_cells_def td_def evaluate_extractor)



text \<open>The records of the example page.\<close>

lemma example_page_systems:
  "parseInaraSystemsHtml example_page =
     [\<lparr> name = JStr (js ''Sol''), economy = JStr (js ''Refinery''), security = JStr (js ''High''),
         allegiance = JStr (js ''Federation''), factions = JNum (Finite (- 5)),
         stations = JNum (Finite 0), distance = JNum (Finite (25 / 2)),
         direction = JNum (Finite 270) \<rparr>]"
  by (simp add: example_page_def short_row_def example_row_def td_def evaluate_extractor)

text \<open>
  Claim C8 as stated fails on a row whose faction cell reads \<open>-5\<close> and whose arrow is
  rotated by 270 degrees: the faction count is negative and the direction is beyond 180.
\<close>

theorem scraped_row_negative_count_and_wide_angle:
  "parseInaraSystemsHtml example_page =
     [\<lparr> name = JStr (js ''Sol''), economy = JStr (js ''Refinery''), security = JStr (js ''High''),
         allegiance = JStr (js ''Federation''), factions = JNum (Finite (- 5)),
         stations = JNum (Finite 0), distance = JNum (Finite (25 / 2)),
         direction = JNum (Finite 270) \<rparr>]"
  by (rule example_page_systems)

text \<open>
  Claim C8, as amended. Every record of the extractor comes from a body row of seven
  cells or more. Its faction count and its station count are each the Number value of
  an integer, which is negative only when the text of the cell holds a minus sign: the
  integer itself where it is a double, as every integer up to \<open>2^53\<close> in size is,
  the nearest double beyond, and an infinity past the range of the doubles. They are
  never NaN. Its direction is null or the Number value of an integer, of any sign and
  size.
\<close>

theorem scraped_row_numbers:
  assumes "r \<in> set (parseInaraSystemsHtml doc)"
  shows "\<exists>row \<in> set (body_rows doc).
        7 \<le> length (querySelectorAll_td row) \<and> r = extract_row (querySelectorAll_td row)
      \<and> (\<exists>n::int. factions r = JNum (number_value (of_int n))
            \<and> (n < 0 \<longrightarrow> 45 \<in> set (textContent (querySelectorAll_td row ! 4))))
      \<and> (\<exists>n::int. stations r = JNum (number_value (of_int n))
            \<and> (n < 0 \<longrightarrow> 45 \<in> set (textContent (querySelectorAll_td row ! 5))))
      \<and> (direction r = JNull \<or> (\<exists>n::int. direction r = JNum (number_value (of_int n))))"
proof -
  from assms obtain row where row: "row \<in> set (body_rows doc)"
    "7 \<le> length (querySelectorAll_td row)"
    and r: "r = extract_row (querySelectorAll_td row)"
    by (auto simp: parseInaraSystemsHtml_map_filter)
  let ?cells = "querySelectorAll_td row"
  from count_or_zero[of "trim (textContent (?cells ! 4))"] set_trim[of "textContent (?cells ! 4)"]
  have f: "\<exists>n::int. factions r = JNum (number_value (of_int n))
            \<and> (n < 0 \<longrightarrow> 45 \<in> set (textContent (?cells ! 4)))"
    unfolding r extract_row_fields by blast
  from count_or_zero[of "trim (textContent (?cells ! 5))"] set_trim[of "textContent (?cells ! 5)"]
  have s: "\<exists>n::int. stations r = JNum (number_value (of_int n))
            \<and> (n < 0 \<longrightarrow> 45 \<in> set (textContent (?cells ! 5)))"
    unfolding r extract_row_fields by blast
  have d: "direction r = JNull \<or> (\<exists>n::int. direction r = JNum (number_value (of_int n)))"
  proof (cases "rotateMatch (?cells ! 6)")
    case None
    then show ?thesis by (simp add: r extract_row_fields)
  next
    case (Some g)
    with rotateMatch_integer[OF Some] show ?thesis by (auto simp: r extract_row_fields)
  qed
  from row r f s d show ?thesis by blast
qed

text \<open>The theorem at the record of the example page.\<close>

theorem scraped_row_numbers_witness:
  "\<lparr> name = JStr (js ''Sol''), economy = JStr (js ''Refinery''), security = JStr (js ''High''),
      allegiance = JStr (js ''Federation''), factions = JNum (Finite (- 5)),
      stations = JNum (Finite 0), distance = JNum (Finite (25 / 2)),
      direction = JNum (Finite 270) \<rparr> \<in> set (parseInaraSystemsHtml example_page)
   \<and> (\<exists>row \<in> set (body_rows example_page).
         7 \<le> length (querySelectorAll_td row)
       \<and> \<lparr> name = JStr (js ''Sol''), economy = JStr (js ''Refinery''),
            security = JStr (js ''High''), allegiance = JStr (js ''Federation''),
            factions = JNum (Finite (- 5)), stations = JNum (Finite 0),
            distance = JNum (Finite (25 / 2)), direction = JNum (Finite 270) \<rparr>
           = extract_row (querySelectorAll_td row)
       \<and> 45 \<in> set (textContent (querySelectorAll_td row ! 4)))"
proof -
  have m: "\<lparr> name = JStr (js ''Sol''), economy = JStr (js ''Refinery''), security = JStr (js ''High''),
      allegiance = JStr (js ''Federation''), factions = JNum (Finite (- 5)),
      stations = JNum (Finite 0), distance = JNum (Finite (25 / 2)),
      direction = JNum (Finite 270) \<rparr> \<in> set (parseInaraSystemsHtml example_page)"
    by (simp add: example_page_systems)
  from scraped_row_numbers[OF m] m show ?thesis
    by (auto dest!: number_value_FiniteD)
qed

text \<open>
  Claim C10. The distance in the record of seven cells or more is not null exactly when
  the text of the distance cell holds digits, a point, digits, any white space and then
  \<open>Ly\<close>; and where that text is a whole number, white space and \<open>Ly\<close>, the
  distance is null.
\<close>

theorem distance_needs_decimal_point:
  assumes "7 \<le> length cells"
  shows "(distance (extract_row cells) \<noteq> JNull \<longleftrightarrow>
     (\<exists>before whole fraction spaces rest.
        trim (textContent (cells ! 6)) = before @ whole @ [46] @ fraction @ spaces @ js ''Ly'' @ rest
      \<and> whole \<noteq> [] \<and> fraction \<noteq> [] \<and> list_all is_digit whole \<and> list_all is_digit fraction
      \<and> list_all is_whitespace spaces))
   \<and> (list_all is_digit digits \<and> list_all is_whitespace gap
        \<and> trim (textContent (cells ! 6)) = digits @ gap @ js ''Ly''
      \<longrightarrow> distance (extract_row cells) = JNull)"
proof (intro conjI impI)
  show "distance (extract_row cells) \<noteq> JNull \<longleftrightarrow>
     (\<exists>before whole fraction spaces rest.
        trim (textContent (cells ! 6)) = before @ whole @ [46] @ fraction @ spaces @ js ''Ly'' @ rest
      \<and> whole \<noteq> [] \<and> fraction \<noteq> [] \<and> list_all is_digit whole \<and> list_all is_digit fraction
      \<and> list_all is_whitespace spaces)"
    by (rule distance_not_null_iff)
next
  assume a: "list_all is_digit digits \<and> list_all is_whitespace gap
        \<and> trim (textContent (cells ! 6)) = digits @ gap @ js ''Ly''"
  show "distance (extract_row cells) = JNull"
  proof (rule ccontr)
    assume "distance (extract_row cells) \<noteq> JNull"
    then obtain before whole fraction spaces rest where
      "trim (textContent (cells ! 6)) = before @ whole @ [46] @ fraction @ spaces @ js ''Ly'' @ rest"
      unfolding distance_not_null_iff by blast
    then have "46 \<in> set (trim (textContent (cells ! 6)))" by simp
    with a whole_number_no_point[of digits gap] show False by simp
  qed
qed

text \<open>The theorem at a cell that reads \<open>12 Ly\<close>.\<close>

theorem distance_needs_decimal_point_witness:
  "7 \<le> length unparsable_cells
   \<and> list_all is_digit (js ''12'') \<and> list_all is_whitespace (js '' '')
   \<and> trim (textContent (unparsable_cells ! 6)) = js ''12'' @ js '' '' @ js ''Ly''
   \<and> distance (extract_row unparsable_cells) = JNull"
proof -
  have h: "list_all is_digit (js ''12'') \<and> list_all is_whitespace (js '' '')
      \<and> trim (textContent (unparsable_cells ! 6)) = js ''12'' @ js '' '' @ js ''Ly''"
    using unparsable_cells_fields(6) by (simp add: is_digit_def is_whitespace_def)
  have l: "7 \<le> length unparsable_cells"
    by (simp add: unparsable_cells_fields)
  from h l distance_needs_decimal_point[OF l, of "js ''12''" "js '' ''"]
  show ?thesis by blast
qed

section \<open>Properties of the endpoints\<close>

lemma snth_1_2: "up !! 1 = shd (stl up)" "up !! 2 = shd (stl (stl up))"
  by (simp_all add: eval_nat_numeral)

lemma stake_1_2:
  "stake 1 up = [shd up]" "stake 2 up = [shd up, shd (stl up)]"
  by (simp_all add: eval_nat_numeral)

lemma rejection_simps:
  "rejection r \<noteq> None \<longleftrightarrow> (\<exists>m. r = Rejects m)"
  "rejection r = Some m \<longleftrightarrow> r = Rejects m"
  by (cases r; simp add: rejection_def)+

lemma bodies_failure_simps:
  "bodies_failure r \<noteq> None \<longleftrightarrow> (\<exists>m. r = Rejects m) \<or> (\<exists>data. r = Resolves data \<and> empty_response data)"
  "bodies_failure r = Some m \<longleftrightarrow>
     r = Rejects m \<or> (\<exists>data. r = Resolves data \<and> empty_response data
                          \<and> m = js ''Empty response received from EDSM'')"
  by (cases r; auto simp: bodies_failure_def)+

text \<open>The definitions that evaluate a handler on a given upstream.\<close>

lemmas evaluate_endpoints =
  nearest_systems_def sphere_systems_def bodies_def system_coordinates_def wait_and_get_def
  sphere_systems_attempt_def empty_response_def last_message_def new_Error_def and_then_def
  js_or_def formatEdsmSystems_def formatEdsmSystem_def inara_url_def sphere_url_def
  bodies_url_def system_url_def population_param_def encodeURIComponent_def template_value_def
  three_attempts_def first_attempts_def sol_def failing_sphere_upstream_def
  failing_bodies_upstream_def late_empty_upstream_def Let_def

subsection \<open>A missing parameter\<close>

text \<open>
  Claim C9. On each of the four endpoints, a request whose system-name parameter is
  missing or is the empty string is answered with status 400 and an error body, and no
  call goes to the upstream.
\<close>

theorem missing_parameter:
  assumes "systemName = JUndefined \<or> systemName = JStr []"
  shows "nearest_systems systemName anyPopulation pages =
           ([], Reply 400 (ErrorJson (js ''Reference system is required'') None))
       \<and> sphere_systems systemName radius minRadius ups =
           ([], Reply 400 (ErrorJson (js ''System name is required'') None))
       \<and> bodies systemName upb =
           ([], Reply 400 (ErrorJson (js ''System name is required'') None))
       \<and> system_coordinates systemName upc =
           ([], Some (Reply 400 (ErrorJson (js ''System name is required'') None)))"
proof -
  from assms have "\<not> truthy systemName" by auto
  then show ?thesis
    by (simp add: nearest_systems_def sphere_systems_def bodies_def system_coordinates_def Let_def)
qed

text \<open>The theorem at the empty string.\<close>

theorem missing_parameter_witness:
  "(JStr [] = JUndefined \<or> JStr [] = JStr [])
   \<and> nearest_systems (JStr []) JUndefined (sconst (Resolves example_page)) =
       ([], Reply 400 (ErrorJson (js ''Reference system is required'') None))
   \<and> sphere_systems (JStr []) JUndefined JUndefined failing_sphere_upstream =
       ([], Reply 400 (ErrorJson (js ''System name is required'') None))
   \<and> bodies (JStr []) failing_bodies_upstream =
       ([], Reply 400 (ErrorJson (js ''System name is required'') None))
   \<and> system_coordinates (JStr []) failing_bodies_upstream =
       ([], Some (Reply 400 (ErrorJson (js ''System name is required'') None)))"
  using missing_parameter [of "JStr []" JUndefined "sconst (Resolves example_page)"
      JUndefined JUndefined failing_sphere_upstream failing_bodies_upstream failing_bodies_upstream]
  by simp

subsection \<open>A URL that cannot be built\<close>

text \<open>
  When a parameter has no conversion to a string, or the name no URI encoding, the
  error goes to the outer \<open>catch\<close>: the answer has status 500 and the message of that
  error, and no call goes to the upstream.
\<close>

lemma url_error:
  assumes "truthy systemName"
  shows "inara_url systemName (population_param anyPopulation) = Inl error \<Longrightarrow>
           nearest_systems systemName anyPopulation pages =
             ([], Reply 500 (ErrorJson (js ''Failed to fetch data from Inara.cz'') (Some error)))"
    and "sphere_url systemName (js_or radius (JNum (Finite 100))) (js_or minRadius (JNum (Finite 0)))
           = Inl error \<Longrightarrow>
           sphere_systems systemName radius minRadius ups =
             ([], Reply 500 (ErrorJson (js ''Failed to fetch data from EDSM sphere-systems'')
                               (Some error)))"
    and "bodies_url systemName = Inl error \<Longrightarrow>
           bodies systemName upb =
             ([], Reply 500 (ErrorJson (js ''Failed to fetch data from EDSM'') (Some error)))"
    and "system_url systemName = Inl error \<Longrightarrow>
           system_coordinates systemName upc =
             ([], Some (Reply 500 (ErrorJson (js ''Failed to fetch system data from EDSM'')
                                     (Some error))))"
  using assms
  by (simp_all add: nearest_systems_def sphere_systems_def bodies_def system_coordinates_def
        Let_def)

text \<open>A name that is an object with a \<open>toString\<close> property of its own is such a parameter.\<close>

lemma url_error_example:
  "system_coordinates (JObj [(js ''toString'', JStr (js ''x''))]) upc =
     ([], Some (Reply 500 (ErrorJson (js ''Failed to fetch system data from EDSM'')
         (Some (CannotConvert (JObj [(js ''toString'', JStr (js ''x''))]))))))"
  by (simp add: evaluate_endpoints)

text \<open>A string with no surrogate in it, such as an ASCII name, is encoded.\<close>

lemma url_of_sol:
  "inara_url sol (population_param JUndefined) = Inr (InaraNearest sol (js ''-1''))"
  "sphere_url sol (js_or JUndefined (JNum (Finite 100))) (js_or JUndefined (JNum (Finite 0)))
     = Inr (EdsmSphere sol (JNum (Finite 100)) (JNum (Finite 0)))"
  "bodies_url sol = Inr (EdsmBodies sol)"
  "system_url sol = Inr (EdsmSystem sol)"
  by (simp_all add: evaluate_endpoints)

subsection \<open>The waits\<close>

lemma nearest_systems_retry_schedule:
  "fst (nearest_systems_retry pages u 3 0 None []) \<in> schedules u"
  by (simp add: schedules_def wait_and_get_def split: outcome.splits)

lemma sphere_systems_retry_schedule:
  "fst (sphere_systems_retry ups u 3 0 None []) \<in> schedules u"
  by (simp add: schedules_def wait_and_get_def split: sum.splits)

lemma bodies_retry_schedule:
  "fst (bodies_retry upb u 3 0 None []) \<in> schedules u"
  by (simp add: schedules_def wait_and_get_def split: outcome.splits)

lemma system_retry_schedule:
  "fst (system_retry upc u 3 0 []) \<in> schedules u"
  by (simp add: schedules_def wait_and_get_def split: outcome.splits)

text \<open>
  Claim C4. Whatever the upstream does, each of the four retry loops, started as its
  handler starts it with the budget of three attempts, calls the upstream once, twice or
  three times; nothing is waited before the first call, 3000 ms before the second and
  6000 ms before the third.
\<close>

theorem backoff_schedule:
  "fst (nearest_systems_retry pages inaraUrl 3 0 None []) \<in> schedules inaraUrl
   \<and> fst (sphere_systems_retry ups sphereUrl 3 0 None []) \<in> schedules sphereUrl
   \<and> fst (bodies_retry upb bodiesUrl 3 0 None []) \<in> schedules bodiesUrl
   \<and> fst (system_retry upc systemUrl 3 0 []) \<in> schedules systemUrl"
  by (intro conjI nearest_systems_retry_schedule sphere_systems_retry_schedule
        bodies_retry_schedule system_retry_schedule)

text \<open>
  The theorem at upstreams that fail once, twice and three times before they answer.
\<close>

theorem backoff_schedule_witness:
  "fst (nearest_systems_retry (Rejects (js ''Network Error'') ## sconst (Resolves []))
          (InaraNearest sol (js ''-1'')) 3 0 None [])
     \<in> schedules (InaraNearest sol (js ''-1''))
   \<and> fst (sphere_systems_retry failing_sphere_upstream
            (EdsmSphere sol (JNum (Finite 100)) (JNum (Finite 0))) 3 0 None [])
       \<in> schedules (EdsmSphere sol (JNum (Finite 100)) (JNum (Finite 0)))
   \<and> fst (bodies_retry failing_bodies_upstream (EdsmBodies sol) 3 0 None [])
       \<in> schedules (EdsmBodies sol)
   \<and> fst (system_retry failing_bodies_upstream (EdsmSystem sol) 3 0 [])
       \<in> schedules (EdsmSystem sol)
   \<and> fst (bodies_retry failing_bodies_upstream (EdsmBodies sol) 3 0 None []) =
       [Get (EdsmBodies sol), Wait 3000, Get (EdsmBodies sol), Wait 6000, Get (EdsmBodies sol)]
   \<and> fst (system_retry failing_bodies_upstream (EdsmSystem sol) 3 0 []) =
       [Get (EdsmSystem sol), Wait 3000, Get (EdsmSystem sol)]"
proof -
  have e: "fst (bodies_retry failing_bodies_upstream (EdsmBodies sol) 3 0 None []) =
       [Get (EdsmBodies sol), Wait 3000, Get (EdsmBodies sol), Wait 6000, Get (EdsmBodies sol)]"
    "fst (system_retry failing_bodies_upstream (EdsmSystem sol) 3 0 []) =
       [Get (EdsmSystem sol), Wait 3000, Get (EdsmSystem sol)]"
    by (simp_all add: evaluate_endpoints)
  from backoff_schedule [of "Rejects (js ''Network Error'') ## sconst (Resolves [])"
      "InaraNearest sol (js ''-1'')" failing_sphere_upstream
      "EdsmSphere sol (JNum (Finite 100)) (JNum (Finite 0))"
      failing_bodies_upstream "EdsmBodies sol" failing_bodies_upstream "EdsmSystem sol"] e
  show ?thesis by simp
qed

text \<open>
  The handlers start the loops so: where the URL is built, the calls and waits of a
  handler are those of its loop.
\<close>

lemma handlers_schedule:
  assumes "truthy systemName"
  shows "inara_url systemName (population_param anyPopulation) = Inr inaraUrl \<Longrightarrow>
           fst (nearest_systems systemName anyPopulation pages) \<in> schedules inaraUrl"
    and "sphere_url systemName (js_or radius (JNum (Finite 100))) (js_or minRadius (JNum (Finite 0)))
           = Inr sphereUrl \<Longrightarrow>
           fst (sphere_systems systemName radius minRadius ups) \<in> schedules sphereUrl"
    and "bodies_url systemName = Inr bodiesUrl \<Longrightarrow>
           fst (bodies systemName upb) \<in> schedules bodiesUrl"
    and "system_url systemName = Inr systemUrl \<Longrightarrow>
           fst (system_coordinates systemName upc) \<in> schedules systemUrl"
proof -
  show "inara_url systemName (population_param anyPopulation) = Inr inaraUrl \<Longrightarrow>
           fst (nearest_systems systemName anyPopulation pages) \<in> schedules inaraUrl"
    using assms nearest_systems_retry_schedule[of pages inaraUrl]
    by (simp add: nearest_systems_def Let_def)
  show "sphere_url systemName (js_or radius (JNum (Finite 100))) (js_or minRadius (JNum (Finite 0)))
           = Inr sphereUrl \<Longrightarrow>
           fst (sphere_systems systemName radius minRadius ups) \<in> schedules sphereUrl"
    using assms sphere_systems_retry_schedule[of ups sphereUrl]
    by (auto simp: sphere_systems_def Let_def split: prod.splits sum.splits)
  show "bodies_url systemName = Inr bodiesUrl \<Longrightarrow>
           fst (bodies systemName upb) \<in> schedules bodiesUrl"
    using assms bodies_retry_schedule[of upb bodiesUrl]
    by (simp add: bodies_def)
  show "system_url systemName = Inr systemUrl \<Longrightarrow>
           fst (system_coordinates systemName upc) \<in> schedules systemUrl"
    using assms system_retry_schedule[of upc systemUrl]
    by (auto simp: system_coordinates_def split: prod.splits sum.splits)
qed

subsection \<open>The budget used up\<close>

lemma nearest_systems_exhausted:
  assumes "truthy systemName"
    and "inara_url systemName (population_param anyPopulation) = Inr inaraUrl"
    and "rejection (pages !! 0) \<noteq> None" "rejection (pages !! 1) \<noteq> None"
        "rejection (pages !! 2) = Some m"
  shows "nearest_systems systemName anyPopulation pages =
           (three_attempts inaraUrl,
            Reply 500 (ErrorJson (js ''Failed to fetch data from Inara.cz'')
              (Some (Text (if m \<noteq> [] then m else js ''All attempts failed'')))))"
  using assms
  by (auto simp: rejection_simps snth_1_2 nearest_systems_def three_attempts_def
        wait_and_get_def last_message_def Let_def)

lemma sphere_systems_exhausted:
  assumes "truthy systemName"
    and "sphere_url systemName (js_or radius (JNum (Finite 100))) (js_or minRadius (JNum (Finite 0)))
           = Inr sphereUrl"
    and "sphere_systems_failure (ups !! 0) \<noteq> None" "sphere_systems_failure (ups !! 1) \<noteq> None"
        "sphere_systems_failure (ups !! 2) = Some error"
  shows "sphere_systems systemName radius minRadius ups =
           (three_attempts sphereUrl,
            Reply 500 (ErrorJson (js ''Failed to fetch data from EDSM sphere-systems'')
              (Some error)))"
  using assms
  by (auto simp: sphere_systems_failure_def snth_1_2 sphere_systems_def
        three_attempts_def wait_and_get_def Let_def split: sum.splits)

lemma bodies_exhausted:
  assumes "truthy systemName"
    and "bodies_url systemName = Inr bodiesUrl"
    and "bodies_failure (upb !! 0) \<noteq> None" "bodies_failure (upb !! 1) \<noteq> None"
        "bodies_failure (upb !! 2) = Some m"
  shows "bodies systemName upb =
           (three_attempts bodiesUrl,
            Reply 500 (ErrorJson (js ''Failed to fetch data from EDSM'')
              (Some (Text (if m \<noteq> [] then m else js ''All attempts failed'')))))"
  using assms
  by (auto simp: bodies_failure_simps snth_1_2 bodies_def three_attempts_def
        wait_and_get_def last_message_def Let_def)

lemma system_coordinates_exhausted:
  assumes "truthy systemName"
    and "system_url systemName = Inr systemUrl"
    and "rejection (upc !! 0) \<noteq> None" "rejection (upc !! 1) \<noteq> None"
        "rejection (upc !! 2) = Some m"
  shows "system_coordinates systemName upc =
           (three_attempts systemUrl,
            Some (Reply 500 (ErrorJson (js ''Failed to fetch system data from EDSM'')
                    (Some (Text m)))))"
  using assms
  by (auto simp: rejection_simps snth_1_2 system_coordinates_def three_attempts_def
        wait_and_get_def Let_def)

text \<open>
  Claim C3, as amended. On each endpoint, for a request whose URL is built, when the
  three attempts fail, the upstream is called exactly three times and the answer has
  status 500 and an error body. Its details are the message of the last error on the
  sphere-systems and the system-coordinates endpoints; on the nearest-systems and the
  bodies endpoints they are that message when it is not empty, and "All attempts
  failed" when it is.
\<close>

theorem exhausted_budget:
  assumes "truthy systemName"
  shows "(inara_url systemName (population_param anyPopulation) = Inr inaraUrl
            \<and> rejection (pages !! 0) \<noteq> None \<and> rejection (pages !! 1) \<noteq> None
            \<and> rejection (pages !! 2) = Some m \<longrightarrow>
          nearest_systems systemName anyPopulation pages =
            (three_attempts inaraUrl,
             Reply 500 (ErrorJson (js ''Failed to fetch data from Inara.cz'')
               (Some (Text (if m \<noteq> [] then m else js ''All attempts failed''))))))
       \<and> (sphere_url systemName (js_or radius (JNum (Finite 100)))
              (js_or minRadius (JNum (Finite 0))) = Inr sphereUrl
            \<and> sphere_systems_failure (ups !! 0) \<noteq> None \<and> sphere_systems_failure (ups !! 1) \<noteq> None
            \<and> sphere_systems_failure (ups !! 2) = Some error \<longrightarrow>
          sphere_systems systemName radius minRadius ups =
            (three_attempts sphereUrl,
             Reply 500 (ErrorJson (js ''Failed to fetch data from EDSM sphere-systems'')
               (Some error))))
       \<and> (bodies_url systemName = Inr bodiesUrl
            \<and> bodies_failure (upb !! 0) \<noteq> None \<and> bodies_failure (upb !! 1) \<noteq> None
            \<and> bodies_failure (upb !! 2) = Some mb \<longrightarrow>
          bodies systemName upb =
            (three_attempts bodiesUrl,
             Reply 500 (ErrorJson (js ''Failed to fetch data from EDSM'')
               (Some (Text (if mb \<noteq> [] then mb else js ''All attempts failed''))))))
       \<and> (system_url systemName = Inr systemUrl
            \<and> rejection (upc !! 0) \<noteq> None \<and> rejection (upc !! 1) \<noteq> None
            \<and> rejection (upc !! 2) = Some mc \<longrightarrow>
          system_coordinates systemName upc =
            (three_attempts systemUrl,
             Some (Reply 500 (ErrorJson (js ''Failed to fetch system data from EDSM'')
                     (Some (Text mc))))))"
  using assms
  by (simp add: nearest_systems_exhausted sphere_systems_exhausted bodies_exhausted
        system_coordinates_exhausted)

text \<open>Upstreams on which every attempt fails.\<close>

lemma example_failures:
  "rejection (sconst (Rejects (js ''Network Error'')) !! 0 :: document outcome) \<noteq> None"
  "rejection (sconst (Rejects (js ''Network Error'')) !! 1 :: document outcome) \<noteq> None"
  "rejection (sconst (Rejects (js ''Network Error'')) !! 2 :: document outcome) = Some (js ''Network Error'')"
  "rejection (sconst (Rejects (js ''Network Error'')) !! 0 :: jsval outcome) \<noteq> None"
  "rejection (sconst (Rejects (js ''Network Error'')) !! 1 :: jsval outcome) \<noteq> None"
  "rejection (sconst (Rejects (js ''Network Error'')) !! 2 :: jsval outcome) = Some (js ''Network Error'')"
  "sphere_systems_failure (failing_sphere_upstream !! 0) \<noteq> None"
  "sphere_systems_failure (failing_sphere_upstream !! 1) \<noteq> None"
  "sphere_systems_failure (failing_sphere_upstream !! 2) = Some (CannotRead JNull (js ''information''))"
  "bodies_failure (failing_bodies_upstream !! 0) \<noteq> None"
  "bodies_failure (failing_bodies_upstream !! 1) \<noteq> None"
  "bodies_failure (failing_bodies_upstream !! 2) = Some (js ''Empty response received from EDSM'')"
  by (simp_all add: snth_1_2 rejection_def sphere_systems_failure_def bodies_failure_def
        evaluate_endpoints)

text \<open>
  The theorem at a rejected call, at answers the sphere-systems endpoint takes for
  failures and at empty answers to the bodies endpoint.
\<close>

theorem exhausted_budget_witness:
  "truthy sol
   \<and> inara_url sol (population_param JUndefined) = Inr (InaraNearest sol (js ''-1''))
   \<and> sphere_url sol (js_or JUndefined (JNum (Finite 100))) (js_or JUndefined (JNum (Finite 0)))
       = Inr (EdsmSphere sol (JNum (Finite 100)) (JNum (Finite 0)))
   \<and> bodies_url sol = Inr (EdsmBodies sol)
   \<and> system_url sol = Inr (EdsmSystem sol)
   \<and> rejection (sconst (Rejects (js ''Network Error'')) !! 2 :: document outcome) = Some (js ''Network Error'')
   \<and> sphere_systems_failure (failing_sphere_upstream !! 2) = Some (CannotRead JNull (js ''information''))
   \<and> bodies_failure (failing_bodies_upstream !! 2) = Some (js ''Empty response received from EDSM'')
   \<and> nearest_systems sol JUndefined (sconst (Rejects (js ''Network Error''))) =
       (three_attempts (InaraNearest sol (js ''-1'')),
        Reply 500 (ErrorJson (js ''Failed to fetch data from Inara.cz'')
          (Some (Text (js ''Network Error'')))))
   \<and> sphere_systems sol JUndefined JUndefined failing_sphere_upstream =
       (three_attempts (EdsmSphere sol (JNum (Finite 100)) (JNum (Finite 0))),
        Reply 500 (ErrorJson (js ''Failed to fetch data from EDSM sphere-systems'')
          (Some (CannotRead JNull (js ''information'')))))
   \<and> bodies sol failing_bodies_upstream =
       (three_attempts (EdsmBodies sol),
        Reply 500 (ErrorJson (js ''Failed to fetch data from EDSM'')
          (Some (Text (js ''Empty response received from EDSM'')))))
   \<and> system_coordinates sol (sconst (Rejects (js ''Network Error''))) =
       (three_attempts (EdsmSystem sol),
        Some (Reply 500 (ErrorJson (js ''Failed to fetch system data from EDSM'')
                (Some (Text (js ''Network Error''))))))"
proof -
  have t: "truthy sol" by (simp add: sol_def)
  from exhausted_budget [OF t, of JUndefined "InaraNearest sol (js ''-1'')"
      "sconst (Rejects (js ''Network Error''))" "js ''Network Error''"
      JUndefined JUndefined "EdsmSphere sol (JNum (Finite 100)) (JNum (Finite 0))"
      failing_sphere_upstream "CannotRead JNull (js ''information'')"
      "EdsmBodies sol" failing_bodies_upstream "js ''Empty response received from EDSM''"
      "EdsmSystem sol" "sconst (Rejects (js ''Network Error''))" "js ''Network Error''"]
    example_failures url_of_sol t
  show ?thesis by simp
qed

text \<open>
  Claim C3 as stated fails on the nearest-systems endpoint when the last error has the
  empty message: the details are then "All attempts failed", not that message.
\<close>

theorem nearest_systems_empty_message:
  "rejection (sconst (Rejects []) !! 2 :: document outcome) = Some []
   \<and> nearest_systems sol JUndefined (sconst (Rejects [])) =
       (three_attempts (InaraNearest sol (js ''-1'')),
        Reply 500 (ErrorJson (js ''Failed to fetch data from Inara.cz'')
          (Some (Text (js ''All attempts failed'')))))"
  by (simp add: snth_1_2 rejection_def evaluate_endpoints)

subsection \<open>An empty result\<close>

text \<open>
  Claim C2 as stated fails on the system-coordinates endpoint: an empty array from the
  upstream is passed on with status 200 after one call, and nothing is tried again.
\<close>

theorem system_coordinates_empty_passes:
  "system_coordinates sol (sconst (Resolves (JArr []))) =
     ([Get (EdsmSystem sol)], Some (Reply 200 (Json (JArr []))))"
  by (simp add: evaluate_endpoints)

text \<open>The three endpoints at an attempt that follows \<open>k\<close> failed ones.\<close>

lemma sphere_systems_empty_array:
  assumes "truthy systemName" "k < 3"
    and "sphere_url systemName (js_or radius (JNum (Finite 100))) (js_or minRadius (JNum (Finite 0)))
           = Inr sphereUrl"
    and "list_all (\<lambda>r. sphere_systems_failure r \<noteq> None) (stake k ups)"
    and "ups !! k = Resolves (JArr [])"
  shows "sphere_systems systemName radius minRadius ups =
           (first_attempts (k + 1) sphereUrl, Reply 200 (Json []))"
proof -
  have e: "sphere_systems_attempt (Resolves (JArr [])) = Inr (Reply 200 (Json []))"
    by (simp add: sphere_systems_attempt_def and_then_def)
  from assms(2) consider "k = 0" | "k = 1" | "k = 2" by linarith
  then show ?thesis
  proof cases
    case 1
    with assms e show ?thesis
      by (simp add: sphere_systems_def first_attempts_def three_attempts_def wait_and_get_def
            Let_def)
  next
    case 2
    with assms e show ?thesis
      by (auto simp: sphere_systems_def first_attempts_def three_attempts_def wait_and_get_def
            sphere_systems_failure_def snth_1_2 stake_1_2 Let_def split: sum.splits)
  next
    case 3
    with assms e show ?thesis
      by (auto simp: sphere_systems_def first_attempts_def three_attempts_def wait_and_get_def
            sphere_systems_failure_def snth_1_2 stake_1_2 Let_def split: sum.splits)
  qed
qed

lemma bodies_empty_response:
  assumes "truthy systemName" "k < 3"
    and "bodies_url systemName = Inr bodiesUrl"
    and "list_all (\<lambda>r. bodies_failure r \<noteq> None) (stake k upb)"
    and "upb !! k = Resolves nothing" "empty_response nothing"
  shows "(k + 1 < 3 \<longrightarrow>
            (\<exists>rest. fst (bodies systemName upb) = first_attempts (k + 2) bodiesUrl @ rest))
       \<and> (k + 1 = 3 \<longrightarrow>
            bodies systemName upb =
              (three_attempts bodiesUrl,
               Reply 500 (ErrorJson (js ''Failed to fetch data from EDSM'')
                 (Some (Text (js ''Empty response received from EDSM''))))))"
proof -
  from assms(2) consider "k = 0" | "k = 1" | "k = 2" by linarith
  then show ?thesis
  proof cases
    case 1
    with assms show ?thesis
      by (simp add: bodies_def first_attempts_def three_attempts_def wait_and_get_def
            split: outcome.splits)
  next
    case 2
    with assms show ?thesis
      by (auto simp: bodies_def first_attempts_def three_attempts_def wait_and_get_def
            bodies_failure_simps snth_1_2 stake_1_2 split: outcome.splits)
  next
    case 3
    with assms show ?thesis
      by (auto simp: bodies_def first_attempts_def three_attempts_def wait_and_get_def
            bodies_failure_simps snth_1_2 stake_1_2 last_message_def split: outcome.splits)
  qed
qed

lemma system_coordinates_passes:
  assumes "truthy systemName" "k < 3"
    and "system_url systemName = Inr systemUrl"
    and "list_all (\<lambda>r. rejection r \<noteq> None) (stake k upc)"
    and "upc !! k = Resolves data"
  shows "system_coordinates systemName upc =
           (first_attempts (k + 1) systemUrl, Some (Reply 200 (Json data)))"
proof -
  from assms(2) consider "k = 0" | "k = 1" | "k = 2" by linarith
  then show ?thesis
  proof cases
    case 1
    with assms show ?thesis
      by (simp add: system_coordinates_def first_attempts_def three_attempts_def
            wait_and_get_def)
  next
    case 2
    with assms show ?thesis
      by (auto simp: system_coordinates_def first_attempts_def three_attempts_def
            wait_and_get_def rejection_simps snth_1_2 stake_1_2)
  next
    case 3
    with assms show ?thesis
      by (auto simp: system_coordinates_def first_attempts_def three_attempts_def
            wait_and_get_def rejection_simps snth_1_2 stake_1_2)
  qed
qed

text \<open>
  Claim C2, as amended. For a request whose URL is built, at the first attempt or after
  one or two failed ones: the sphere-systems endpoint answers an empty array from the
  upstream with status 200 and an empty array, and calls no more. The bodies endpoint
  takes an empty response for a failed attempt: it waits and calls again, and after the
  third attempt it answers with status 500. The system-coordinates endpoint checks
  nothing: it passes the data of the first accepted response on with status 200, empty
  or not, and calls no more.
\<close>

theorem empty_result_policies:
  assumes "truthy systemName" "k < 3"
  shows "(sphere_url systemName (js_or radius (JNum (Finite 100)))
              (js_or minRadius (JNum (Finite 0))) = Inr sphereUrl
            \<and> list_all (\<lambda>r. sphere_systems_failure r \<noteq> None) (stake k ups)
            \<and> ups !! k = Resolves (JArr []) \<longrightarrow>
          sphere_systems systemName radius minRadius ups =
            (first_attempts (k + 1) sphereUrl, Reply 200 (Json [])))
       \<and> (bodies_url systemName = Inr bodiesUrl
            \<and> list_all (\<lambda>r. bodies_failure r \<noteq> None) (stake k upb)
            \<and> upb !! k = Resolves nothing \<and> empty_response nothing \<longrightarrow>
          (k + 1 < 3 \<longrightarrow>
             (\<exists>rest. fst (bodies systemName upb) = first_attempts (k + 2) bodiesUrl @ rest))
        \<and> (k + 1 = 3 \<longrightarrow>
             bodies systemName upb =
               (three_attempts bodiesUrl,
                Reply 500 (ErrorJson (js ''Failed to fetch data from EDSM'')
                  (Some (Text (js ''Empty response received from EDSM'')))))))
       \<and> (system_url systemName = Inr systemUrl
            \<and> list_all (\<lambda>r. rejection r \<noteq> None) (stake k upc)
            \<and> upc !! k = Resolves data \<longrightarrow>
          system_coordinates systemName upc =
            (first_attempts (k + 1) systemUrl, Some (Reply 200 (Json data))))"
  using assms sphere_systems_empty_array[of systemName k radius minRadius sphereUrl ups]
    bodies_empty_response[of systemName k bodiesUrl upb nothing]
    system_coordinates_passes[of systemName k systemUrl upc data]
  by blast

text \<open>
  The theorem at an upstream that answers with the empty array after one rejected call.
\<close>

theorem empty_result_policies_witness:
  "truthy sol \<and> (1::nat) < 3
   \<and> sphere_url sol (js_or JUndefined (JNum (Finite 100))) (js_or JUndefined (JNum (Finite 0)))
       = Inr (EdsmSphere sol (JNum (Finite 100)) (JNum (Finite 0)))
   \<and> bodies_url sol = Inr (EdsmBodies sol)
   \<and> system_url sol = Inr (EdsmSystem sol)
   \<and> list_all (\<lambda>r. sphere_systems_failure r \<noteq> None) (stake 1 late_empty_upstream)
   \<and> list_all (\<lambda>r. bodies_failure r \<noteq> None) (stake 1 late_empty_upstream)
   \<and> list_all (\<lambda>r. rejection r \<noteq> None) (stake 1 late_empty_upstream)
   \<and> late_empty_upstream !! 1 = Resolves (JArr [])
   \<and> empty_response (JArr [])
   \<and> sphere_systems sol JUndefined JUndefined late_empty_upstream =
       ([Get (EdsmSphere sol (JNum (Finite 100)) (JNum (Finite 0))), Wait 3000,
         Get (EdsmSphere sol (JNum (Finite 100)) (JNum (Finite 0)))], Reply 200 (Json []))
   \<and> (\<exists>rest. fst (bodies sol late_empty_upstream) = three_attempts (EdsmBodies sol) @ rest)
   \<and> system_coordinates sol late_empty_upstream =
       ([Get (EdsmSystem sol), Wait 3000, Get (EdsmSystem sol)],
        Some (Reply 200 (Json (JArr []))))"
proof -
  have t: "truthy sol" by (simp add: sol_def)
  have k: "(1::nat) < 3" by simp
  have h: "list_all (\<lambda>r. sphere_systems_failure r \<noteq> None) (stake 1 late_empty_upstream)"
    "list_all (\<lambda>r. bodies_failure r \<noteq> None) (stake 1 late_empty_upstream)"
    "list_all (\<lambda>r. rejection r \<noteq> None) (stake 1 late_empty_upstream)"
    "late_empty_upstream !! 1 = Resolves (JArr [])"
    "empty_response (JArr [])"
    by (simp_all add: stake_1_2 snth_1_2 sphere_systems_failure_def bodies_failure_def
          rejection_def evaluate_endpoints)
  from empty_result_policies [OF t k, of JUndefined JUndefined
      "EdsmSphere sol (JNum (Finite 100)) (JNum (Finite 0))" late_empty_upstream
      "EdsmBodies sol" late_empty_upstream "JArr []" "EdsmSystem sol" late_empty_upstream "JArr []"]
    h url_of_sol t
  show ?thesis
    by (simp add: first_attempts_def three_attempts_def)
qed

end
